theory Spec2Isabelle
  imports
    Main
    "HOL-Library.Word"
    "HOL-Library.AList"
    "HOL-Library.Char_ord"
    "HOL-Library.List_Lexorder"
begin

unbundle bit_operations_syntax

section \<open>Bytes, strings and the library functions the store calls\<close>

text \<open>
  A Go \<open>string\<close> is a byte sequence and is modelled as \<^typ>\<open>string\<close> (one \<^typ>\<open>char\<close> is one
  byte); \<open>[]byte\<close> is a list of 8-bit words; \<open>int64\<close> is a 64-bit word, read with \<^const>\<open>sint\<close>.
  A \<open>time.Time\<close> is an integer count of nanoseconds since the Unix epoch.
\<close>

type_synonym byte = "8 word"
type_synonym int64 = "64 word"
type_synonym time = int

text \<open>\<open>[]byte(s)\<close>: the bytes of a string.\<close>

definition string_bytes :: "string \<Rightarrow> byte list" where
  "string_bytes s = map of_char s"

text \<open>\<open>strings.HasPrefix\<close>, \<open>strings.TrimPrefix\<close>, \<open>strings.HasSuffix\<close>, \<open>strings.TrimSuffix\<close>.\<close>

definition HasPrefix :: "string \<Rightarrow> string \<Rightarrow> bool" where
  "HasPrefix s p = (length p \<le> length s \<and> take (length p) s = p)"

definition TrimPrefix :: "string \<Rightarrow> string \<Rightarrow> string" where
  "TrimPrefix s p = (if HasPrefix s p then drop (length p) s else s)"

definition HasSuffix :: "string \<Rightarrow> string \<Rightarrow> bool" where
  "HasSuffix s x = (length x \<le> length s \<and> drop (length s - length x) s = x)"

definition TrimSuffix :: "string \<Rightarrow> string \<Rightarrow> string" where
  "TrimSuffix s x = (if HasSuffix s x then take (length s - length x) s else s)"

text \<open>\<open>hex.EncodeToString\<close>: two lower-case digits per byte, high nibble first.\<close>

definition hextable :: string where
  "hextable = ''0123456789abcdef''"

fun EncodeToString :: "byte list \<Rightarrow> string" where
  "EncodeToString [] = []"
| "EncodeToString (b # bs) =
     hextable ! unat (drop_bit 4 b) # hextable ! unat (b AND 15) # EncodeToString bs"

text \<open>
  \<open>sha256.Sum256\<close> belongs to the Go standard library. It is a parameter \<open>sha\<close> of every
  function that hashes; its result, a \<open>[32]byte\<close> array, is a 256-bit word whose bytes are
  read most significant first.
\<close>

type_synonym sha256 = "byte list \<Rightarrow> 256 word"

definition digest_bytes :: "256 word \<Rightarrow> byte list" where
  "digest_bytes w = map (\<lambda>i. ucast (drop_bit (8 * (31 - i)) w)) [0..<32]"

text \<open>\<open>fmt.Sprintf("%d", n)\<close> for an \<open>int64\<close>.\<close>

fun decimal :: "nat \<Rightarrow> string" where
  "decimal n =
     (if n < 10 then [char_of (48 + n)] else decimal (n div 10) @ [char_of (48 + n mod 10)])"

definition Sprintf_d :: "int64 \<Rightarrow> string" where
  "Sprintf_d n = (if sint n < 0 then CHR ''-'' # decimal (nat (- sint n)) else decimal (nat (sint n)))"

text \<open>\<open>Time.UnixNano\<close>: the nanosecond count as an \<open>int64\<close>.\<close>

definition UnixNano :: "time \<Rightarrow> int64" where
  "UnixNano t = word_of_int t"

section \<open>The file store (gemini\_file\_store.go)\<close>

definition MetadataFileExtension :: string where
  "MetadataFileExtension = ''.meta.json''"

text \<open>
  The two sentinel errors, and \<open>Errorf msg\<close> for every error built with \<open>fmt.Errorf\<close>: those
  wrap an operating-system error (or nothing), so \<open>errors.Is\<close> matches them with neither
  sentinel. The string is the fixed head of the format.
\<close>

datatype error = ErrFileNotFound | ErrFileTooLarge | Errorf string

record FileMetadata =
  FileID :: string
  Name :: string
  DisplayName :: string
  MimeType :: string
  SizeBytes :: int64
  SHA256Hash :: string
  URI :: string
  State :: string
  CreatedAt :: time
  ExpiresAt :: time
  UploadSource :: string
  APIKey :: string

text \<open>
  The store owns two directories. \<open>filepath.Join(dir, name)\<close> is the pair of the directory
  and the entry name: every name the store joins is a validated id, possibly followed by a
  fixed extension, so it holds no separator. The content directory holds regular files. An
  entry of the metadata directory is a sidecar that \<open>json.Unmarshal\<close> decodes to a record,
  a file it cannot decode, or a subdirectory.
\<close>

datatype dir = FilesDir | MetadataDir

type_synonym path = "dir \<times> string"

datatype meta_entry = Sidecar FileMetadata | Garbage | SubDir

text \<open>
  Every system call the store makes is appended to \<open>trace\<close>. A call fails with an
  input/output error (one that is not \<open>fs.ErrNotExist\<close>) exactly when the environment's
  fault predicate \<open>flt\<close> holds of it; a failed call changes nothing on disk.
\<close>

datatype fs_op =
    OpCreate path | OpWrite path | OpRename path path | OpRemove path | OpStat path
  | OpReadFile path | OpWriteFile path | OpReadDir dir | OpOpen path

type_synonym faults = "fs_op \<Rightarrow> bool"

record store =
  filesDir :: "(string \<times> byte list) list"
  metadataDir :: "(string \<times> meta_entry) list"
  expirationHours :: int64
  maxTotalSizeMB :: int64
  currentTotalSize :: int64
  trace :: "fs_op list"

definition logged :: "fs_op \<Rightarrow> store \<Rightarrow> store" where
  "logged op s = s\<lparr>trace := trace s @ [op]\<rparr>"

text \<open>\<open>os.ReadDir\<close> returns the entry names sorted by file name.\<close>

definition ReadDir_names :: "(string \<times> 'a) list \<Rightarrow> string list" where
  "ReadDir_names d = sort (map fst d)"

datatype remove_result = Removed | NotExist | RemoveFailed

definition os_Remove :: "faults \<Rightarrow> path \<Rightarrow> store \<Rightarrow> remove_result \<times> store" where
  "os_Remove flt p s =
     (let s' = logged (OpRemove p) s in
      if flt (OpRemove p) then (RemoveFailed, s')
      else case fst p of
          FilesDir \<Rightarrow>
            (if map_of (filesDir s') (snd p) = None then (NotExist, s')
             else (Removed, s'\<lparr>filesDir := AList.delete (snd p) (filesDir s')\<rparr>))
        | MetadataDir \<Rightarrow>
            (if map_of (metadataDir s') (snd p) = None then (NotExist, s')
             else (Removed, s'\<lparr>metadataDir := AList.delete (snd p) (metadataDir s')\<rparr>)))"

subsection \<open>Identifiers and ownership\<close>

text \<open>\<open>GenerateFileID\<close>: the first 16 digest bytes of the decimal clock reading, in hex.\<close>

definition GenerateFileID :: "sha256 \<Rightarrow> time \<Rightarrow> string" where
  "GenerateFileID sha now =
     (let timestamp = UnixNano now;
          hash = digest_bytes (sha (string_bytes (Sprintf_d timestamp)))
      in EncodeToString (take 16 hash))"

definition generateFileID :: "sha256 \<Rightarrow> time \<Rightarrow> string" where
  "generateFileID sha now = GenerateFileID sha now"

definition hashAPIKey :: "sha256 \<Rightarrow> string \<Rightarrow> string" where
  "hashAPIKey sha apiKey =
     (if apiKey = [] then []
      else EncodeToString (take 8 (digest_bytes (sha (string_bytes apiKey)))))"

text \<open>\<open>isValidFileID\<close>: the loop over the bytes of the id, after the length test.\<close>

fun validFileIDChars :: "string \<Rightarrow> bool" where
  "validFileIDChars [] = True"
| "validFileIDChars (c # cs) =
     (let isDigit = (CHR ''0'' \<le> c \<and> c \<le> CHR ''9'');
          isLowerHex = (CHR ''a'' \<le> c \<and> c \<le> CHR ''f'');
          isUpperHex = (CHR ''A'' \<le> c \<and> c \<le> CHR ''F'')
      in if \<not> isDigit \<and> \<not> isLowerHex \<and> \<not> isUpperHex then False else validFileIDChars cs)"

definition isValidFileID :: "string \<Rightarrow> bool" where
  "isValidFileID fileID = (if length fileID \<noteq> 32 then False else validFileIDChars fileID)"

text \<open>The metadata pointer is never nil where the store calls these two.\<close>

definition isExpired :: "FileMetadata \<Rightarrow> time \<Rightarrow> bool" where
  "isExpired metadata now = (ExpiresAt metadata < now)"

definition isOwnedByAPIKey :: "sha256 \<Rightarrow> FileMetadata \<Rightarrow> string \<Rightarrow> bool" where
  "isOwnedByAPIKey sha metadata apiKey =
     (if APIKey metadata = [] then apiKey = []
      else APIKey metadata = hashAPIKey sha apiKey)"

subsection \<open>Metadata sidecars\<close>

definition loadMetadata :: "faults \<Rightarrow> string \<Rightarrow> store \<Rightarrow> (error + FileMetadata) \<times> store" where
  "loadMetadata flt fileID s =
     (if \<not> isValidFileID fileID then (Inl ErrFileNotFound, s)
      else
        let metaPath = (MetadataDir, fileID @ MetadataFileExtension);
            s' = logged (OpReadFile metaPath) s
        in if flt (OpReadFile metaPath) then (Inl (Errorf ''failed to read metadata''), s')
           else case map_of (metadataDir s') (snd metaPath) of
               None \<Rightarrow> (Inl ErrFileNotFound, s')
             | Some SubDir \<Rightarrow> (Inl (Errorf ''failed to read metadata''), s')
             | Some Garbage \<Rightarrow> (Inl (Errorf ''failed to unmarshal metadata''), s')
             | Some (Sidecar metadata) \<Rightarrow> (Inr metadata, s'))"

text \<open>
  \<open>saveMetadata\<close>: \<open>json.MarshalIndent\<close> followed by \<open>os.WriteFile\<close>. The sidecar holds the
  record that \<open>json.Unmarshal\<close> reads back. A failure of either step is the fault of the
  write; the boolean is \<open>err == nil\<close>.
\<close>

definition saveMetadata :: "faults \<Rightarrow> FileMetadata \<Rightarrow> store \<Rightarrow> bool \<times> store" where
  "saveMetadata flt metadata s =
     (let metaPath = (MetadataDir, FileID metadata @ MetadataFileExtension);
          s' = logged (OpWriteFile metaPath) s
      in if flt (OpWriteFile metaPath) then (False, s')
         else (True, s'\<lparr>metadataDir := AList.update (snd metaPath) (Sidecar metadata) (metadataDir s')\<rparr>))"

subsection \<open>Reading\<close>

definition GetFile :: "faults \<Rightarrow> string \<Rightarrow> store \<Rightarrow> (error + FileMetadata) \<times> store" where
  "GetFile flt fileID s = loadMetadata flt fileID s"

definition GetFileForAPIKey ::
  "sha256 \<Rightarrow> faults \<Rightarrow> time \<Rightarrow> string \<Rightarrow> string \<Rightarrow> store \<Rightarrow> (error + FileMetadata) \<times> store" where
  "GetFileForAPIKey sha flt now fileID apiKey s =
     (case GetFile flt fileID s of
        (Inl err, s') \<Rightarrow>
          (if err = ErrFileNotFound then (Inl ErrFileNotFound, s') else (Inl err, s'))
      | (Inr metadata, s') \<Rightarrow>
          (if \<not> isOwnedByAPIKey sha metadata apiKey \<or> isExpired metadata now
           then (Inl ErrFileNotFound, s')
           else (Inr metadata, s')))"

text \<open>
  \<open>GetFileContent\<close> returns an open file; the model returns the bytes the file holds when it
  is opened.
\<close>

definition GetFileContent ::
  "faults \<Rightarrow> time \<Rightarrow> string \<Rightarrow> store \<Rightarrow> (error + byte list \<times> FileMetadata) \<times> store" where
  "GetFileContent flt now fileID s =
     (if \<not> isValidFileID fileID then (Inl ErrFileNotFound, s)
      else case loadMetadata flt fileID s of
          (Inl err, s') \<Rightarrow> (Inl err, s')
        | (Inr metadata, s') \<Rightarrow>
            (if ExpiresAt metadata < now then (Inl ErrFileNotFound, s')
             else
               let filePath = (FilesDir, fileID);
                   s'' = logged (OpOpen filePath) s'
               in if flt (OpOpen filePath) then (Inl (Errorf ''failed to open file''), s'')
                  else case map_of (filesDir s'') fileID of
                      None \<Rightarrow> (Inl (Errorf ''failed to open file''), s'')
                    | Some file \<Rightarrow> (Inr (file, metadata), s'')))"

text \<open>The two clock readings are those of \<open>GetFileForAPIKey\<close> and of \<open>GetFileContent\<close>.\<close>

definition GetFileContentForAPIKey ::
  "sha256 \<Rightarrow> faults \<Rightarrow> time \<Rightarrow> time \<Rightarrow> string \<Rightarrow> string \<Rightarrow> store
     \<Rightarrow> (error + byte list \<times> FileMetadata) \<times> store" where
  "GetFileContentForAPIKey sha flt now1 now2 fileID apiKey s =
     (case GetFileForAPIKey sha flt now1 fileID apiKey s of
        (Inl err, s') \<Rightarrow> (Inl err, s')
      | (Inr metadata, s') \<Rightarrow>
          (case GetFileContent flt now2 fileID s' of
             (Inl err, s'') \<Rightarrow>
               (if err = ErrFileNotFound then (Inl ErrFileNotFound, s'') else (Inl err, s''))
           | (Inr (file, _), s'') \<Rightarrow> (Inr (file, metadata), s'')))"

definition ensureFileSizeAllowed :: "FileMetadata \<Rightarrow> int64 \<Rightarrow> error option" where
  "ensureFileSizeAllowed metadata maxBytes =
     (if maxBytes \<le>s 0 then None
      else if SizeBytes metadata \<le>s maxBytes then None
      else Some ErrFileTooLarge)"

definition readAllWithinLimit :: "byte list \<Rightarrow> int64 \<Rightarrow> error + byte list" where
  "readAllWithinLimit r maxBytes =
     (if maxBytes \<le>s 0 then Inr r
      else
        let data = take (nat (sint (maxBytes + 1))) r
        in if maxBytes <s word_of_nat (length data) then Inl ErrFileTooLarge else Inr data)"

definition ReadFileBytesForAPIKey ::
  "sha256 \<Rightarrow> faults \<Rightarrow> time \<Rightarrow> time \<Rightarrow> string \<Rightarrow> string \<Rightarrow> int64 \<Rightarrow> store
     \<Rightarrow> (error + byte list \<times> FileMetadata) \<times> store" where
  "ReadFileBytesForAPIKey sha flt now1 now2 fileID apiKey maxBytes s =
     (case GetFileContentForAPIKey sha flt now1 now2 fileID apiKey s of
        (Inl err, s') \<Rightarrow> (Inl err, s')
      | (Inr (file, metadata), s') \<Rightarrow>
          (case ensureFileSizeAllowed metadata maxBytes of
             Some err \<Rightarrow> (Inl err, s')
           | None \<Rightarrow>
               (case readAllWithinLimit file maxBytes of
                  Inl err \<Rightarrow> (Inl err, s')
                | Inr data \<Rightarrow> (Inr (data, metadata), s'))))"

subsection \<open>Listing\<close>

text \<open>The body of the loop of \<open>ListFiles\<close> over the directory entries.\<close>

fun ListFiles_loop ::
  "faults \<Rightarrow> time \<Rightarrow> string list \<Rightarrow> FileMetadata list \<Rightarrow> store \<Rightarrow> FileMetadata list \<times> store" where
  "ListFiles_loop flt now [] files s = (files, s)"
| "ListFiles_loop flt now (entry # entries) files s =
     (if map_of (metadataDir s) entry = Some SubDir \<or> \<not> HasSuffix entry MetadataFileExtension
      then ListFiles_loop flt now entries files s
      else
        let fileID = TrimSuffix entry MetadataFileExtension
        in case loadMetadata flt fileID s of
            (Inl err, s') \<Rightarrow> ListFiles_loop flt now entries files s'
          | (Inr metadata, s') \<Rightarrow>
              (if isExpired metadata now then ListFiles_loop flt now entries files s'
               else ListFiles_loop flt now entries (files @ [metadata]) s'))"

definition ListFiles :: "faults \<Rightarrow> time \<Rightarrow> store \<Rightarrow> (error + FileMetadata list) \<times> store" where
  "ListFiles flt now s =
     (let s' = logged (OpReadDir MetadataDir) s
      in if flt (OpReadDir MetadataDir)
         then (Inl (Errorf ''failed to read metadata directory''), s')
         else case ListFiles_loop flt now (ReadDir_names (metadataDir s')) [] s' of
             (files, s'') \<Rightarrow> (Inr files, s''))"

definition filterByAPIKey :: "sha256 \<Rightarrow> FileMetadata list \<Rightarrow> string \<Rightarrow> FileMetadata list" where
  "filterByAPIKey sha files apiKey =
     (if files = [] then []
      else let want = hashAPIKey sha apiKey in filter (\<lambda>metadata. APIKey metadata = want) files)"

definition ListFilesForAPIKey ::
  "sha256 \<Rightarrow> faults \<Rightarrow> time \<Rightarrow> string \<Rightarrow> store \<Rightarrow> (error + FileMetadata list) \<times> store" where
  "ListFilesForAPIKey sha flt now apiKey s =
     (case ListFiles flt now s of
        (Inl err, s') \<Rightarrow> (Inl err, s')
      | (Inr files, s') \<Rightarrow> (Inr (filterByAPIKey sha files apiKey), s'))"

subsection \<open>Deleting\<close>

text \<open>The result is the returned error, \<open>None\<close> for nil.\<close>

definition deleteFileUnsafe :: "faults \<Rightarrow> string \<Rightarrow> store \<Rightarrow> error option \<times> store" where
  "deleteFileUnsafe flt fileID s =
     (if \<not> isValidFileID fileID then (Some ErrFileNotFound, s)
      else
        let filePath = (FilesDir, fileID);
            metaPath = (MetadataDir, fileID @ MetadataFileExtension);
            s1 = logged (OpStat filePath) s;
            s2 = (if flt (OpStat filePath) then s1
                  else case map_of (filesDir s1) fileID of
                      None \<Rightarrow> s1
                    | Some file \<Rightarrow>
                        s1\<lparr>currentTotalSize := currentTotalSize s1 - word_of_nat (length file)\<rparr>)
        in case os_Remove flt filePath s2 of
            (RemoveFailed, s3) \<Rightarrow> (Some (Errorf ''failed to remove file''), s3)
          | (_, s3) \<Rightarrow>
              (case os_Remove flt metaPath s3 of
                 (RemoveFailed, s4) \<Rightarrow> (Some (Errorf ''failed to remove metadata''), s4)
               | (_, s4) \<Rightarrow> (None, s4)))"

definition DeleteFile :: "faults \<Rightarrow> string \<Rightarrow> store \<Rightarrow> error option \<times> store" where
  "DeleteFile flt fileID s = deleteFileUnsafe flt fileID s"

text \<open>The two clock readings are those of \<open>GetFileForAPIKey\<close> and of the second expiry test.\<close>

definition DeleteFileForAPIKey ::
  "sha256 \<Rightarrow> faults \<Rightarrow> time \<Rightarrow> time \<Rightarrow> string \<Rightarrow> string \<Rightarrow> store \<Rightarrow> error option \<times> store" where
  "DeleteFileForAPIKey sha flt now1 now2 fileID apiKey s =
     (case GetFileForAPIKey sha flt now1 fileID apiKey s of
        (Inl err, s') \<Rightarrow> (Some err, s')
      | (Inr metadata, s') \<Rightarrow>
          (if isExpired metadata now2 then (Some ErrFileNotFound, s')
           else DeleteFile flt fileID s'))"



text \<open>\<open>calculateTotalSize\<close>: an entry whose \<open>Info\<close> fails is skipped.\<close>

definition calculateTotalSize :: "faults \<Rightarrow> store \<Rightarrow> error option \<times> store" where
  "calculateTotalSize flt s =
     (let s' = logged (OpReadDir FilesDir) s
      in if flt (OpReadDir FilesDir) then (Some (Errorf ''failed to read files directory''), s')
         else
           let sizes = map (\<lambda>(name, file). if flt (OpStat (FilesDir, name)) then 0
                                             else word_of_nat (length file)) (filesDir s')
           in (None, s'\<lparr>currentTotalSize := sum_list sizes\<rparr>))"

subsection \<open>Saving\<close>

text \<open>
  The content is an \<open>io.Reader\<close>: the bytes it yields, and whether it then ends with an error
  instead of end-of-file.
\<close>

record reader =
  data :: "byte list"
  read_fails :: bool

text \<open>
  \<open>os.Create\<close> of the temporary file (an existing file is truncated), \<open>io.Copy\<close> into it (the
  result is the byte count, \<open>None\<close> when the reader or the write failed) and \<open>os.Rename\<close>
  (which replaces an existing target).
\<close>

definition os_Create :: "faults \<Rightarrow> string \<Rightarrow> store \<Rightarrow> bool \<times> store" where
  "os_Create flt name s =
     (let s' = logged (OpCreate (FilesDir, name)) s
      in if flt (OpCreate (FilesDir, name)) then (False, s')
         else (True, s'\<lparr>filesDir := AList.update name [] (filesDir s')\<rparr>))"

definition io_Copy :: "faults \<Rightarrow> string \<Rightarrow> reader \<Rightarrow> store \<Rightarrow> int64 option \<times> store" where
  "io_Copy flt name content s =
     (let s' = logged (OpWrite (FilesDir, name)) s
      in if flt (OpWrite (FilesDir, name)) then (None, s')
         else
           let s'' = s'\<lparr>filesDir := AList.update name (data content) (filesDir s')\<rparr>
           in if read_fails content then (None, s'')
              else (Some (word_of_nat (length (data content))), s''))"

definition os_Rename :: "faults \<Rightarrow> string \<Rightarrow> string \<Rightarrow> store \<Rightarrow> bool \<times> store" where
  "os_Rename flt old new s =
     (let s' = logged (OpRename (FilesDir, old) (FilesDir, new)) s
      in if flt (OpRename (FilesDir, old) (FilesDir, new)) then (False, s')
         else case map_of (filesDir s') old of
             None \<Rightarrow> (False, s')
           | Some file \<Rightarrow>
               (True, s'\<lparr>filesDir := AList.update new file (AList.delete old (filesDir s'))\<rparr>))"

text \<open>The record that \<open>SaveFile\<close> builds once the content is in place.\<close>

definition newFileMetadata ::
  "sha256 \<Rightarrow> time \<Rightarrow> time \<Rightarrow> int64 \<Rightarrow> string \<Rightarrow> byte list \<Rightarrow> int64 \<Rightarrow> string \<Rightarrow> string \<Rightarrow> string
     \<Rightarrow> string \<Rightarrow> FileMetadata" where
  "newFileMetadata sha tCreated tExpires hours fileID bytes written name mimeType displayName apiKey =
     \<lparr>FileID = fileID, Name = name, DisplayName = displayName, MimeType = mimeType,
      SizeBytes = written, SHA256Hash = EncodeToString (digest_bytes (sha bytes)),
      URI = ''files/'' @ fileID, State = ''ACTIVE'', CreatedAt = tCreated,
      ExpiresAt = tExpires + sint (hours * 3600000000000),
      UploadSource = ''local'', APIKey = hashAPIKey sha apiKey\<rparr>"

text \<open>
  The three clock readings are those of \<open>generateFileID\<close>, of \<open>CreatedAt\<close> and of
  \<open>ExpiresAt\<close>. \<open>SaveFile_body\<close> is the function after the temporary file exists; the
  deferred \<open>os.Remove(tempPath)\<close> runs on each of its returns.
\<close>

definition SaveFile_body ::
  "sha256 \<Rightarrow> faults \<Rightarrow> time \<Rightarrow> time \<Rightarrow> string \<Rightarrow> reader \<Rightarrow> string \<Rightarrow> string \<Rightarrow> string \<Rightarrow> string
     \<Rightarrow> store \<Rightarrow> (error + FileMetadata) \<times> store" where
  "SaveFile_body sha flt tCreated tExpires fileID content name mimeType displayName apiKey s =
     (case io_Copy flt (fileID @ ''.tmp'') content s of
        (None, s1) \<Rightarrow> (Inl (Errorf ''failed to write file content''), s1)
      | (Some written, s1) \<Rightarrow>
          (if 0 <s maxTotalSizeMB s1 \<and>
              maxTotalSizeMB s1 * 1024 * 1024 <s currentTotalSize s1 + written
           then (Inl (Errorf ''storage quota exceeded''), s1)
           else case os_Rename flt (fileID @ ''.tmp'') fileID s1 of
               (False, s2) \<Rightarrow> (Inl (Errorf ''failed to finalize file''), s2)
             | (True, s2) \<Rightarrow>
                 (let s3 = s2\<lparr>currentTotalSize := currentTotalSize s2 + written\<rparr>;
                      metadata = newFileMetadata sha tCreated tExpires (expirationHours s3)
                        fileID (data content) written name mimeType displayName apiKey
                  in case saveMetadata flt metadata s3 of
                      (False, s4) \<Rightarrow>
                        (let s5 = snd (os_Remove flt (FilesDir, fileID) s4)
                         in (Inl (Errorf ''failed to save metadata''),
                             s5\<lparr>currentTotalSize := currentTotalSize s5 - written\<rparr>))
                    | (True, s4) \<Rightarrow> (Inr metadata, s4))))"

definition SaveFile ::
  "sha256 \<Rightarrow> faults \<Rightarrow> time \<Rightarrow> time \<Rightarrow> time \<Rightarrow> reader \<Rightarrow> string \<Rightarrow> string \<Rightarrow> string \<Rightarrow> string
     \<Rightarrow> store \<Rightarrow> (error + FileMetadata) \<times> store" where
  "SaveFile sha flt tID tCreated tExpires content name mimeType displayName apiKey s =
     (let fileID = generateFileID sha tID;
          tempName = fileID @ ''.tmp''
      in case os_Create flt tempName s of
          (False, s1) \<Rightarrow> (Inl (Errorf ''failed to create temp file''), s1)
        | (True, s1) \<Rightarrow>
            (case SaveFile_body sha flt tCreated tExpires fileID content name mimeType
                    displayName apiKey s1 of
               (result, s2) \<Rightarrow> (result, snd (os_Remove flt (FilesDir, tempName) s2))))"

section \<open>The local file handler: resumable finalize\<close>

text \<open>
  What the handler reads of a \<open>gin.Context\<close>: the query parameters, the request headers (by
  canonical name), the \<open>apiKey\<close> entry the authentication middleware may have set (present
  when it holds a string), and the request body.
\<close>

record request =
  query_params :: "(string \<times> string) list"
  header_fields :: "(string \<times> string) list"
  context_apiKey :: "string option"
  request_body :: reader

text \<open>\<open>c.Query\<close> and \<open>c.GetHeader\<close>: the first value, or the empty string.\<close>

definition Query :: "request \<Rightarrow> string \<Rightarrow> string" where
  "Query c key = (case map_of (query_params c) key of None \<Rightarrow> [] | Some v \<Rightarrow> v)"

definition GetHeader :: "request \<Rightarrow> string \<Rightarrow> string" where
  "GetHeader c key = (case map_of (header_fields c) key of None \<Rightarrow> [] | Some v \<Rightarrow> v)"

text \<open>\<open>c.ContentType\<close>: the \<open>Content-Type\<close> header up to the first space or semicolon.\<close>

definition ContentType :: "request \<Rightarrow> string" where
  "ContentType c = takeWhile (\<lambda>ch. ch \<noteq> CHR '' '' \<and> ch \<noteq> CHR '';'') (GetHeader c ''Content-Type'')"

text \<open>
  \<open>http.MaxBytesReader\<close>: a body longer than the limit yields the first \<open>limit\<close> bytes and
  then an error.
\<close>

definition MaxMultipartFileSize :: nat where
  "MaxMultipartFileSize = 2 * 1024 * 1024 * 1024"

definition MaxBytesReader :: "nat \<Rightarrow> reader \<Rightarrow> reader" where
  "MaxBytesReader limit r =
     (if limit < length (data r) then \<lparr>data = take limit (data r), read_fails = True\<rparr> else r)"

definition extractAPIKey :: "request \<Rightarrow> string" where
  "extractAPIKey c =
     (case context_apiKey c of
        Some keyStr \<Rightarrow> keyStr
      | None \<Rightarrow>
          let authHeader = GetHeader c ''Authorization'' in
          if HasPrefix authHeader ''Bearer '' then TrimPrefix authHeader ''Bearer ''
          else if GetHeader c ''X-Goog-Api-Key'' \<noteq> [] then GetHeader c ''X-Goog-Api-Key''
          else if Query c ''key'' \<noteq> [] then Query c ''key''
          else [])"

text \<open>
  A Go call either returns or panics. The slice expression \<open>s[:n]\<close> panics (slice bounds out
  of range) when \<open>n\<close> exceeds the length of \<open>s\<close>.
\<close>

datatype 'a go = Panics string | Returns 'a

definition slice_to :: "string \<Rightarrow> nat \<Rightarrow> string go" where
  "slice_to s n =
     (if length s < n then Panics ''runtime error: slice bounds out of range'' else Returns (take n s))"

text \<open>
  The response: the status code, the \<open>X-Goog-Upload-Status\<close> header when set, and the JSON
  body, an error envelope (message and status) or the rendered file resource.
\<close>

datatype response_body = NoBody | ErrorJSON string string | FileJSON FileMetadata

record response =
  status_code :: nat
  upload_status :: "string option"
  response_body :: response_body

definition handleResumableFinalize ::
  "sha256 \<Rightarrow> faults \<Rightarrow> time \<Rightarrow> time \<Rightarrow> time \<Rightarrow> request \<Rightarrow> store \<Rightarrow> (response \<times> store) go" where
  "handleResumableFinalize sha flt tID tCreated tExpires c fileStore =
     (let uploadID = Query c ''upload_id'' in
      if uploadID = []
      then Returns (\<lparr>status_code = 400, upload_status = None,
                      response_body = ErrorJSON ''missing upload_id parameter'' ''INVALID_ARGUMENT''\<rparr>,
                    fileStore)
      else
        let body = MaxBytesReader MaxMultipartFileSize (request_body c);
            contentType = (if GetHeader c ''X-Goog-Upload-Header-Content-Type'' = []
                           then ContentType c
                           else GetHeader c ''X-Goog-Upload-Header-Content-Type'')
        in case slice_to uploadID 8 of
            Panics msg \<Rightarrow> Panics msg
          | Returns prefix \<Rightarrow>
              (let displayName = ''upload-'' @ prefix;
                   apiKey = extractAPIKey c
               in case SaveFile sha flt tID tCreated tExpires body uploadID contentType
                         displayName apiKey fileStore of
                   (Inl err, fileStore') \<Rightarrow>
                     Returns (\<lparr>status_code = 500, upload_status = Some ''failed'',
                                response_body = ErrorJSON ''failed to save file'' ''INTERNAL''\<rparr>,
                              fileStore')
                 | (Inr metadata, fileStore') \<Rightarrow>
                     Returns (\<lparr>status_code = 200, upload_status = Some ''final'',
                                response_body = FileJSON metadata\<rparr>,
                              fileStore')))"

section \<open>The upstream file proxy: resumable sessions\<close>

text \<open>
  \<open>strings.TrimSpace\<close> removes the leading and the trailing white space of a string, as
  Unicode defines it: it decodes the string as UTF-8 from the front, and from the back, and
  drops the characters with the property White_Space. \<open>White_Space\<close> lists them in UTF-8:
  U+0009 to U+000D, U+0020, U+0085, U+00A0, U+1680, U+2000 to U+200A, U+2028, U+2029, U+202F,
  U+205F and U+3000. A valid encoding is the only encoding of its character, and the bytes
  after the first are continuation bytes, so a string begins (ends) with a white-space
  character exactly when one of these byte sequences is a prefix (suffix) of it.
\<close>

definition White_Space :: "string list" where
  "White_Space =
     [[CHR 0x09], [CHR 0x0A], [CHR 0x0B], [CHR 0x0C], [CHR 0x0D], [CHR 0x20],
      [CHR 0xC2, CHR 0x85], [CHR 0xC2, CHR 0xA0],
      [CHR 0xE1, CHR 0x9A, CHR 0x80],
      [CHR 0xE2, CHR 0x80, CHR 0x80], [CHR 0xE2, CHR 0x80, CHR 0x81], [CHR 0xE2, CHR 0x80, CHR 0x82],
      [CHR 0xE2, CHR 0x80, CHR 0x83], [CHR 0xE2, CHR 0x80, CHR 0x84], [CHR 0xE2, CHR 0x80, CHR 0x85],
      [CHR 0xE2, CHR 0x80, CHR 0x86], [CHR 0xE2, CHR 0x80, CHR 0x87], [CHR 0xE2, CHR 0x80, CHR 0x88],
      [CHR 0xE2, CHR 0x80, CHR 0x89], [CHR 0xE2, CHR 0x80, CHR 0x8A],
      [CHR 0xE2, CHR 0x80, CHR 0xA8], [CHR 0xE2, CHR 0x80, CHR 0xA9], [CHR 0xE2, CHR 0x80, CHR 0xAF],
      [CHR 0xE2, CHR 0x81, CHR 0x9F],
      [CHR 0xE3, CHR 0x80, CHR 0x80]]"

text \<open>
  The loop of \<open>strings.TrimLeftFunc\<close>: while the string begins with one of the characters
  \<open>cs\<close>, drop it.
\<close>

function TrimLeft :: "string list \<Rightarrow> string \<Rightarrow> string" where
  "TrimLeft cs s =
     (case find (\<lambda>c. c \<noteq> [] \<and> HasPrefix s c) cs of
        None \<Rightarrow> s
      | Some c \<Rightarrow> TrimLeft cs (drop (length c) s))"
  by pat_completeness auto

termination
proof (relation "measure (\<lambda>(cs, s). length s)")
  show "wf (measure (\<lambda>(cs, s). length s))" by simp
next
  fix cs :: "string list" and s c :: string
  assume "find (\<lambda>c. c \<noteq> [] \<and> HasPrefix s c) cs = Some c"
  then have "c \<noteq> []" and "HasPrefix s c" by (auto simp: find_Some_iff)
  then show "((cs, drop (length c) s), (cs, s)) \<in> measure (\<lambda>(cs, s). length s)"
    by (cases c) (auto simp: HasPrefix_def)
qed

declare TrimLeft.simps [simp del]

text \<open>
  The trailing white space of a string is the leading white space of the string read
  backwards.
\<close>

definition TrimSpace :: "string \<Rightarrow> string" where
  "TrimSpace s = rev (TrimLeft (map rev White_Space) (rev (TrimLeft White_Space s)))"

text \<open>
  \<open>strings.EqualFold s t\<close> for a \<open>t\<close> of ASCII characters, which is how the handler calls it
  (\<open>"resumable"\<close>, \<open>"start"\<close>): the characters of \<open>s\<close> and \<open>t\<close> are compared one by one under
  Unicode simple case folding. An ASCII character folds to itself and, a letter, to its other
  case; beyond ASCII only U+017F (the long s, bytes C5 BF) folds to \<open>s\<close> and U+212A (the Kelvin
  sign, bytes E2 84 AA) to \<open>k\<close>.
\<close>

definition asciiLower :: "char \<Rightarrow> char" where
  "asciiLower c = (if CHR ''A'' \<le> c \<and> c \<le> CHR ''Z'' then char_of (of_char c + (32::nat)) else c)"

fun EqualFold :: "string \<Rightarrow> string \<Rightarrow> bool" where
  "EqualFold [] t = (t = [])"
| "EqualFold (c # s) [] = False"
| "EqualFold (c # s) (d # t) =
     (if c < CHR 0x80 then asciiLower c = asciiLower d \<and> EqualFold s t
      else if HasPrefix (c # s) [CHR 0xC5, CHR 0xBF]
      then asciiLower d = CHR ''s'' \<and> EqualFold (drop 1 s) t
      else if HasPrefix (c # s) [CHR 0xE2, CHR 0x84, CHR 0xAA]
      then asciiLower d = CHR ''k'' \<and> EqualFold (drop 2 s) t
      else False)"

text \<open>\<open>strings.Contains\<close>.\<close>

fun Contains :: "string \<Rightarrow> string \<Rightarrow> bool" where
  "Contains [] substr = (substr = [])"
| "Contains (c # cs) substr = (HasPrefix (c # cs) substr \<or> Contains cs substr)"

text \<open>
  The session table \<open>h.sessions\<close>. A nil Go map reads as the empty map, and the handler
  creates the map on the first write, so the table is a partial function from the start.
\<close>

record uploadSession =
  authID :: string
  expiresAt :: time

type_synonym sessions = "string \<rightharpoonup> uploadSession"

text \<open>\<open>2 * time.Hour\<close> in nanoseconds.\<close>

definition sessionTTL :: int where
  "sessionTTL = 2 * 3600000000000"

definition bindSession :: "time \<Rightarrow> string \<Rightarrow> string \<Rightarrow> sessions \<Rightarrow> sessions" where
  "bindSession now uploadID authID' table =
     (if TrimSpace uploadID = [] \<or> TrimSpace authID' = [] then table
      else table(uploadID \<mapsto> \<lparr>authID = authID', expiresAt = now + sessionTTL\<rparr>))"

text \<open>\<open>sessionAuthID\<close>: the credential and the \<open>ok\<close> flag, and the table after the lookup.\<close>

definition sessionAuthID :: "time \<Rightarrow> string \<Rightarrow> sessions \<Rightarrow> (string \<times> bool) \<times> sessions" where
  "sessionAuthID now uploadID table =
     (let uploadID = TrimSpace uploadID in
      if uploadID = [] then (([], False), table)
      else case table uploadID of
          None \<Rightarrow> (([], False), table(uploadID := None))
        | Some s \<Rightarrow>
            (if authID s = [] \<or> expiresAt s < now then (([], False), table(uploadID := None))
             else ((authID s, True), table)))"

definition dropSession :: "string \<Rightarrow> sessions \<Rightarrow> sessions" where
  "dropSession uploadID table =
     (let uploadID = TrimSpace uploadID in
      if uploadID = [] then table else table(uploadID := None))"

text \<open>
  The credential manager \<open>h.base.AuthManager\<close> is outside the repository's files. A call of
  its \<open>Execute\<close> is the action of the request and the two entries the proxy puts into the
  options' metadata (\<open>ForceAuthIDMetadataKey\<close>, \<open>NoRetryMetadataKey\<close>); its answer is an error,
  or a response with status, headers, payload and the credential it selected
  (\<open>SelectedAuthIDMetadataKey\<close>). \<open>PickAuth\<close> is what its selection returns for the request: an
  error, or the id of the credential picked. The manager is a parameter, \<open>None\<close> for a nil
  \<open>AuthManager\<close>.
\<close>

record exec_call =
  action :: string
  force_auth_id :: "string option"
  no_retry :: bool

record exec_response =
  resp_status :: int
  resp_headers :: "(string \<times> string) list"
  resp_payload :: "byte list"
  selected_auth_id :: "string option"

datatype exec_error = ExecError nat string

record AuthManager =
  Execute :: "exec_call \<Rightarrow> exec_error + exec_response"
  PickAuth :: "exec_error + string"

type_synonym auth_manager = "AuthManager option"

text \<open>\<open>h.execute\<close>: the result, and the calls it made of the executor.\<close>

definition execute :: "auth_manager \<Rightarrow> exec_call \<Rightarrow> (exec_error + exec_response) \<times> exec_call list" where
  "execute manager call =
     (case manager of
        None \<Rightarrow> (Inl (ExecError 503 ''gemini files: auth manager is not configured''), [])
      | Some m \<Rightarrow> (Execute m call, [call]))"

text \<open>\<open>h.pickAuth\<close>.\<close>

definition pickAuth :: "auth_manager \<Rightarrow> exec_error + string" where
  "pickAuth manager =
     (case manager of
        None \<Rightarrow> Inl (ExecError 503 ''gemini files: auth manager is not configured'')
      | Some m \<Rightarrow> PickAuth m)"

text \<open>
  What the proxy writes: the error envelope of \<open>writeGeminiFileError\<close> (status, message,
  code), the upstream response relayed by \<open>writeProxyResponseWithHeaders\<close>, or the error
  rendered by \<open>writeProxyError\<close>.
\<close>

datatype proxy_response =
    ErrorEnvelope nat string string
  | Relayed exec_response
  | ProxyError exec_error

definition writeProxyResponse :: "exec_error + exec_response \<Rightarrow> proxy_response" where
  "writeProxyResponse result = (case result of Inr resp \<Rightarrow> Relayed resp | Inl err \<Rightarrow> ProxyError err)"

text \<open>
  \<open>handleResumableFollowUp\<close>: \<open>query_upload_id\<close> is \<open>c.Query("upload_id")\<close>. The result is
  the response, the session table and the executor calls made. \<open>strings.ToLower\<close> maps by
  the case tables of package \<open>unicode\<close>; it is the parameter \<open>ToLower\<close>.
\<close>

definition handleResumableFollowUp ::
  "auth_manager \<Rightarrow> (string \<Rightarrow> string) \<Rightarrow> time \<Rightarrow> string \<Rightarrow> string \<Rightarrow> sessions
     \<Rightarrow> proxy_response \<times> sessions \<times> exec_call list" where
  "handleResumableFollowUp manager ToLower now query_upload_id cmd table =
     (let uploadID = TrimSpace query_upload_id in
      case sessionAuthID now uploadID table of
        ((_, False), table1) \<Rightarrow>
          (ErrorEnvelope 400 ''missing or expired upload_id'' ''INVALID_ARGUMENT'', table1, [])
      | ((authID', True), table1) \<Rightarrow>
          (let call = \<lparr>action = ''files.upload'', force_auth_id = Some authID', no_retry = True\<rparr>
           in case execute manager call of
               (result, calls) \<Rightarrow>
                 (let table2 = (if Contains (ToLower cmd) ''finalize'' \<and> \<not> isl result
                                then dropSession uploadID table1 else table1)
                  in (writeProxyResponse result, table2, calls))))"

text \<open>
  \<open>handleResumableStart\<close> with \<open>writeResumableStartResponse\<close>. \<open>url.Parse\<close> and the query
  lookup of \<open>extractUploadID\<close> are a parameter \<open>upload_id_of_url\<close> (the empty string when the
  URL does not parse or has no \<open>upload_id\<close>), and \<open>proxy_url\<close> is the URL that
  \<open>buildProxyUploadURL\<close> makes for an upload id.
\<close>

definition extractUploadID :: "(string \<Rightarrow> string) \<Rightarrow> string \<Rightarrow> string" where
  "extractUploadID upload_id_of_url raw =
     (let raw = TrimSpace raw in
      if raw = [] then [] else TrimSpace (upload_id_of_url raw))"

definition authIDFromMetadata :: "exec_response \<Rightarrow> string" where
  "authIDFromMetadata resp = (case selected_auth_id resp of Some v \<Rightarrow> TrimSpace v | None \<Rightarrow> [])"

definition handleResumableStart ::
  "auth_manager \<Rightarrow> (string \<Rightarrow> string) \<Rightarrow> (string \<Rightarrow> string) \<Rightarrow> time \<Rightarrow> sessions
     \<Rightarrow> proxy_response \<times> sessions \<times> exec_call list" where
  "handleResumableStart manager upload_id_of_url proxy_url now table =
     (let call = \<lparr>action = ''files.upload'', force_auth_id = None, no_retry = False\<rparr>
      in case execute manager call of
          (Inl err, calls) \<Rightarrow> (writeProxyResponse (Inl err), table, calls)
        | (Inr resp, calls) \<Rightarrow>
            (let uploadURL = (case map_of (resp_headers resp) ''X-Goog-Upload-Url'' of
                                None \<Rightarrow> [] | Some v \<Rightarrow> v);
                 uploadID = extractUploadID upload_id_of_url uploadURL
             in if uploadID \<noteq> []
                then (Relayed (resp\<lparr>resp_headers :=
                          AList.update ''X-Goog-Upload-Url'' (proxy_url uploadID) (resp_headers resp)\<rparr>),
                      bindSession now uploadID (authIDFromMetadata resp) table, calls)
                else (Relayed resp, table, calls)))"

text \<open>
  \<open>handleMultipartUpload\<close>: a credential is picked, and the upload is executed with that
  credential forced and retry disabled.
\<close>

definition handleMultipartUpload ::
  "auth_manager \<Rightarrow> sessions \<Rightarrow> proxy_response \<times> sessions \<times> exec_call list" where
  "handleMultipartUpload manager table =
     (case pickAuth manager of
        Inl errPick \<Rightarrow> (ProxyError errPick, table, [])
      | Inr auth \<Rightarrow>
          (let call = \<lparr>action = ''files.upload'', force_auth_id = Some auth, no_retry = True\<rparr>
           in case execute manager call of
               (result, calls) \<Rightarrow> (writeProxyResponse result, table, calls)))"

definition handleResumableUpload ::
  "auth_manager \<Rightarrow> (string \<Rightarrow> string) \<Rightarrow> (string \<Rightarrow> string) \<Rightarrow> (string \<Rightarrow> string) \<Rightarrow> time \<Rightarrow> request
     \<Rightarrow> sessions \<Rightarrow> proxy_response \<times> sessions \<times> exec_call list" where
  "handleResumableUpload manager ToLower upload_id_of_url proxy_url now c table =
     (let cmd = TrimSpace (GetHeader c ''X-Goog-Upload-Command'')
      in if EqualFold cmd ''start''
         then handleResumableStart manager upload_id_of_url proxy_url now table
         else handleResumableFollowUp manager ToLower now (Query c ''upload_id'') cmd table)"

text \<open>\<open>UploadFile\<close>, for a request that is not nil.\<close>

definition UploadFile ::
  "auth_manager \<Rightarrow> (string \<Rightarrow> string) \<Rightarrow> (string \<Rightarrow> string) \<Rightarrow> (string \<Rightarrow> string) \<Rightarrow> time \<Rightarrow> request
     \<Rightarrow> sessions \<Rightarrow> proxy_response \<times> sessions \<times> exec_call list" where
  "UploadFile manager ToLower upload_id_of_url proxy_url now c table =
     (let protocol = GetHeader c ''X-Goog-Upload-Protocol''
      in if EqualFold protocol ''resumable''
         then handleResumableUpload manager ToLower upload_id_of_url proxy_url now c table
         else handleMultipartUpload manager table)"

text \<open>
  \<open>shouldTreatAsResumableUpload\<close> (\<open>gemini_files_resumable.go\<close>), for a request that is not
  nil.
\<close>

definition shouldTreatAsResumableUpload :: "request \<Rightarrow> bool" where
  "shouldTreatAsResumableUpload c =
     (if EqualFold (TrimSpace (GetHeader c ''X-Goog-Upload-Protocol'')) ''resumable'' then True
      else if TrimSpace (GetHeader c ''X-Goog-Upload-Command'') \<noteq> [] then True
      else if TrimSpace (Query c ''upload_id'') \<noteq> [] then True
      else False)"

section \<open>JSON payloads: reading with gjson, editing with sjson\<close>

text \<open>
  The rewriter reads the request payload with \<open>github.com/tidwall/gjson\<close> and edits it with
  \<open>github.com/tidwall/sjson\<close>, and encodes with \<open>encoding/base64\<close>. The three packages are
  not part of the repository; they are modelled here as they are documented, on the parsed
  document instead of its bytes. A payload is a JSON value. The members of an object are kept
  in the order of the text, duplicates included; a number keeps its text. What the model
  leaves out is the text between the values (white space, escapes), and payloads that are not
  JSON.
\<close>

datatype json =
    JNull
  | JBool bool
  | JNumber string
  | JString string
  | JArray "json list"
  | JObject "(string \<times> json) list"

text \<open>
  A path is a list of components separated by dots. The paths of the rewriter are made of
  fixed member names and of array indices printed with \<open>%d\<close>.
\<close>

datatype segment = Key string | Index nat

text \<open>
  One component of a path: a member name selects the first member of an object with that
  name, a number selects an element of an array (or the member of an object whose name is the
  number's decimal text). A name selects nothing in an array, and nothing is selected in a
  value that is neither object nor array.
\<close>

fun segment_name :: "segment \<Rightarrow> string" where
  "segment_name (Key k) = k"
| "segment_name (Index n) = decimal n"

fun child :: "json \<Rightarrow> segment \<Rightarrow> json option" where
  "child (JObject members) p = map_of members (segment_name p)"
| "child (JArray elements) (Index n) = (if n < length elements then Some (elements ! n) else None)"
| "child _ _ = None"

text \<open>
  A \<open>gjson.Result\<close> is the value found, or \<open>None\<close> for the result that does not exist.
  \<open>gjson_Get\<close> is \<open>Result.Get\<close>, and \<open>gjson.GetBytes\<close> on a payload is \<open>gjson_Get\<close> on
  \<open>Some payload\<close>.
\<close>

fun gjson_Get :: "json option \<Rightarrow> segment list \<Rightarrow> json option" where
  "gjson_Get r [] = r"
| "gjson_Get None (p # ps) = None"
| "gjson_Get (Some j) (p # ps) = gjson_Get (child j p) ps"

definition Exists :: "json option \<Rightarrow> bool" where
  "Exists r = (r \<noteq> None)"

definition IsArray :: "json option \<Rightarrow> bool" where
  "IsArray r = (case r of Some (JArray elements) \<Rightarrow> True | _ \<Rightarrow> False)"

text \<open>\<open>Result.Array\<close>: the elements of an array; a null or missing result gives no element, any
  other value gives itself.\<close>

definition Array :: "json option \<Rightarrow> json list" where
  "Array r = (case r of None \<Rightarrow> [] | Some JNull \<Rightarrow> [] | Some (JArray elements) \<Rightarrow> elements
              | Some j \<Rightarrow> [j])"

text \<open>
  \<open>Result.String\<close>: the characters of a string, the text of a number or of a boolean, the
  empty string for null and for a result that does not exist, and for an object or an array
  the text it has in the payload, which \<open>raw\<close> supplies.
\<close>

definition Result_String :: "(json \<Rightarrow> string) \<Rightarrow> json option \<Rightarrow> string" where
  "Result_String raw r =
     (case r of
        None \<Rightarrow> []
      | Some JNull \<Rightarrow> []
      | Some (JBool b) \<Rightarrow> (if b then ''true'' else ''false'')
      | Some (JNumber text) \<Rightarrow> text
      | Some (JString text) \<Rightarrow> text
      | Some j \<Rightarrow> raw j)"

subsection \<open>sjson\<close>

text \<open>Replacing and removing the value that a path component selects.\<close>

fun replace_child :: "json \<Rightarrow> segment \<Rightarrow> json \<Rightarrow> json" where
  "replace_child (JObject members) p v = JObject (AList.update (segment_name p) v members)"
| "replace_child (JArray elements) (Index n) v = JArray (elements[n := v])"
| "replace_child j _ v = j"

fun remove_member :: "string \<Rightarrow> (string \<times> json) list \<Rightarrow> (string \<times> json) list" where
  "remove_member k [] = []"
| "remove_member k ((a, b) # members) = (if a = k then members else (a, b) # remove_member k members)"

fun remove_child :: "json \<Rightarrow> segment \<Rightarrow> json" where
  "remove_child (JObject members) p = JObject (remove_member (segment_name p) members)"
| "remove_child (JArray elements) (Index n) = JArray (take n elements @ drop (Suc n) elements)"
| "remove_child j _ = j"

text \<open>
  What sjson builds for a path that does not exist yet: an object for a name, and for a
  number an array filled with nulls up to the index.
\<close>

fun appendBuild :: "segment list \<Rightarrow> json \<Rightarrow> json" where
  "appendBuild [] v = v"
| "appendBuild (Key k # ps) v = JObject [(k, appendBuild ps v)]"
| "appendBuild (Index n # ps) v = JArray (replicate n JNull @ [appendBuild ps v])"

text \<open>
  Setting a value at a path. Where the path exists the value there is replaced; where it
  stops, the rest is built and appended to the object or array reached (a value that is
  neither is replaced by what is built). A name cannot be set in an array: that is the error
  of sjson, as is the empty path.
\<close>

fun sjson_set :: "segment list \<Rightarrow> json \<Rightarrow> json \<Rightarrow> string + json" where
  "sjson_set [] j v = Inl ''path cannot be empty''"
| "sjson_set (p # ps) j v =
     (case child j p of
        Some c \<Rightarrow>
          (if ps = [] then Inr (replace_child j p v)
           else case sjson_set ps c v of
               Inl err \<Rightarrow> Inl err
             | Inr c' \<Rightarrow> Inr (replace_child j p c'))
      | None \<Rightarrow>
          (case j of
             JObject members \<Rightarrow> Inr (JObject (members @ [(segment_name p, appendBuild ps v)]))
           | JArray elements \<Rightarrow>
               (case p of
                  Index n \<Rightarrow>
                    Inr (JArray (elements @ replicate (n - length elements) JNull @ [appendBuild ps v]))
                | Key k \<Rightarrow> Inl (''cannot set array element for non-numeric key '' @ k))
           | _ \<Rightarrow> Inr (appendBuild (p # ps) v)))"

text \<open>
  \<open>sjson.SetBytes\<close> returns the new document and the error; with an error the document
  returned is the one given.
\<close>

definition SetBytes :: "json \<Rightarrow> segment list \<Rightarrow> json \<Rightarrow> json \<times> string option" where
  "SetBytes payload path v =
     (case sjson_set path payload v of
        Inl err \<Rightarrow> (payload, Some err)
      | Inr out \<Rightarrow> (out, None))"

text \<open>
  Deleting the value at a path; \<open>None\<close> when the path selects nothing, in which case
  \<open>sjson.DeleteBytes\<close> returns the document given.
\<close>

fun sjson_delete :: "segment list \<Rightarrow> json \<Rightarrow> json option" where
  "sjson_delete [] j = None"
| "sjson_delete (p # ps) j =
     (case child j p of
        None \<Rightarrow> None
      | Some c \<Rightarrow>
          (if ps = [] then Some (remove_child j p)
           else case sjson_delete ps c of
               None \<Rightarrow> None
             | Some c' \<Rightarrow> Some (replace_child j p c')))"

definition DeleteBytes :: "json \<Rightarrow> segment list \<Rightarrow> json \<times> string option" where
  "DeleteBytes payload path =
     (case sjson_delete path payload of
        None \<Rightarrow> (payload, None)
      | Some out \<Rightarrow> (out, None))"

subsection \<open>base64\<close>

text \<open>
  \<open>base64.StdEncoding\<close>: three bytes make a number of 24 bits, which is written as four
  characters of the alphabet, six bits each; a last group of one or two bytes is padded with
  \<open>=\<close>.
\<close>

definition encodeStd :: string where
  "encodeStd = ''ABCDEFGHIJKLMNOPQRSTUVWXYZabcdefghijklmnopqrstuvwxyz0123456789+/''"

definition sextet :: "nat \<Rightarrow> nat \<Rightarrow> char" where
  "sextet val shift = encodeStd ! (val div 2 ^ shift mod 64)"

fun base64_EncodeToString :: "byte list \<Rightarrow> string" where
  "base64_EncodeToString [] = []"
| "base64_EncodeToString [a] =
     (let val = unat a * 65536
      in [sextet val 18, sextet val 12, CHR ''='', CHR ''=''])"
| "base64_EncodeToString [a, b] =
     (let val = unat a * 65536 + unat b * 256
      in [sextet val 18, sextet val 12, sextet val 6, CHR ''=''])"
| "base64_EncodeToString (a # b # c # src) =
     (let val = unat a * 65536 + unat b * 256 + unat c
      in [sextet val 18, sextet val 12, sextet val 6, sextet val 0] @ base64_EncodeToString src)"

text \<open>The decoder: the position of a character in the alphabet, and the groups of four.\<close>

fun position :: "char list \<Rightarrow> char \<Rightarrow> nat option" where
  "position [] c = None"
| "position (a # alphabet) c = (if a = c then Some 0 else map_option Suc (position alphabet c))"

definition decodeMap :: "char \<Rightarrow> nat option" where
  "decodeMap c = position encodeStd c"

definition quantum :: "char list \<Rightarrow> nat option" where
  "quantum cs = fold (\<lambda>c acc. case (acc, decodeMap c) of (Some v, Some d) \<Rightarrow> Some (v * 64 + d) | _ \<Rightarrow> None)
     cs (Some 0)"

fun decode_groups :: "string \<Rightarrow> byte list option" where
  "decode_groups [] = Some []"
| "decode_groups [c1, c2, c3, c4] =
     (if c3 = CHR ''='' \<and> c4 = CHR ''=''
      then map_option (\<lambda>val. [word_of_nat (val div 16)]) (quantum [c1, c2])
      else if c4 = CHR ''=''
      then map_option (\<lambda>val. [word_of_nat (val div 1024), word_of_nat (val div 4)]) (quantum [c1, c2, c3])
      else map_option (\<lambda>val. [word_of_nat (val div 65536), word_of_nat (val div 256), word_of_nat val])
             (quantum [c1, c2, c3, c4]))"
| "decode_groups (c1 # c2 # c3 # c4 # src) =
     (case (quantum [c1, c2, c3, c4], decode_groups src) of
        (Some val, Some bytes) \<Rightarrow>
          Some ([word_of_nat (val div 65536), word_of_nat (val div 256), word_of_nat val] @ bytes)
      | _ \<Rightarrow> None)"
| "decode_groups _ = None"

text \<open>\<open>DecodeString\<close> skips carriage returns and line feeds.\<close>

definition base64_DecodeString :: "string \<Rightarrow> byte list option" where
  "base64_DecodeString s = decode_groups (filter (\<lambda>c. c \<noteq> CHR 0x0D \<and> c \<noteq> CHR 0x0A) s)"

section \<open>The payload rewriter\<close>

definition maxInlineFileBytes :: int64 where
  "maxInlineFileBytes = 20 * 1024 * 1024"

record filePartRef =
  contentIndex :: nat
  partIndex :: nat
  fileURI :: string
  mimeType :: string

definition parseLocalFilePart :: "(json \<Rightarrow> string) \<Rightarrow> nat \<Rightarrow> nat \<Rightarrow> json \<Rightarrow> filePartRef option" where
  "parseLocalFilePart raw ci pi part =
     (let fileURI0 = Result_String raw (gjson_Get (Some part) [Key ''file_data'', Key ''file_uri'']);
          mimeType0 = Result_String raw (gjson_Get (Some part) [Key ''file_data'', Key ''mime_type'']);
          fileURI1 = (if fileURI0 = []
                      then Result_String raw (gjson_Get (Some part) [Key ''fileData'', Key ''fileUri''])
                      else fileURI0);
          mimeType1 = (if fileURI0 = []
                       then Result_String raw (gjson_Get (Some part) [Key ''fileData'', Key ''mimeType''])
                       else mimeType0)
      in if \<not> HasPrefix fileURI1 ''files/'' then None
         else Some \<lparr>contentIndex = ci, partIndex = pi, fileURI = fileURI1, mimeType = mimeType1\<rparr>)"

text \<open>The loop of \<open>appendRefsFromContent\<close> over the parts, from the index \<open>pi\<close> on.\<close>

fun appendRefsFromParts ::
  "(json \<Rightarrow> string) \<Rightarrow> nat \<Rightarrow> nat \<Rightarrow> json list \<Rightarrow> filePartRef list \<Rightarrow> filePartRef list" where
  "appendRefsFromParts raw ci pi [] out = out"
| "appendRefsFromParts raw ci pi (part # parts) out =
     appendRefsFromParts raw ci (Suc pi) parts
       (case parseLocalFilePart raw ci pi part of Some ref \<Rightarrow> out @ [ref] | None \<Rightarrow> out)"

definition appendRefsFromContent ::
  "(json \<Rightarrow> string) \<Rightarrow> filePartRef list \<Rightarrow> nat \<Rightarrow> json \<Rightarrow> filePartRef list" where
  "appendRefsFromContent raw out ci content =
     (let parts = gjson_Get (Some content) [Key ''parts'']
      in if \<not> Exists parts \<or> \<not> IsArray parts then out
         else appendRefsFromParts raw ci 0 (Array parts) out)"

text \<open>The loop of \<open>findRefsInContents\<close>, from the index \<open>ci\<close> on.\<close>

fun findRefsInContents_loop ::
  "(json \<Rightarrow> string) \<Rightarrow> nat \<Rightarrow> json list \<Rightarrow> filePartRef list \<Rightarrow> filePartRef list" where
  "findRefsInContents_loop raw ci [] out = out"
| "findRefsInContents_loop raw ci (content # contents) out =
     findRefsInContents_loop raw (Suc ci) contents (appendRefsFromContent raw out ci content)"

definition findRefsInContents :: "(json \<Rightarrow> string) \<Rightarrow> json list \<Rightarrow> filePartRef list" where
  "findRefsInContents raw contents = findRefsInContents_loop raw 0 contents []"

definition findLocalFilePartRefs :: "(json \<Rightarrow> string) \<Rightarrow> json \<Rightarrow> filePartRef list" where
  "findLocalFilePartRefs raw payload =
     (let contents = gjson_Get (Some payload) [Key ''contents'']
      in if \<not> Exists contents \<or> \<not> IsArray contents then []
         else findRefsInContents raw (Array contents))"

definition normalizeReadError :: "error \<Rightarrow> error" where
  "normalizeReadError err =
     (case err of
        ErrFileNotFound \<Rightarrow> ErrFileNotFound
      | ErrFileTooLarge \<Rightarrow> ErrFileTooLarge
      | Errorf msg \<Rightarrow> Errorf (''read local file: '' @ msg))"

definition resolveMimeType :: "filePartRef \<Rightarrow> FileMetadata option \<Rightarrow> string" where
  "resolveMimeType ref metadata =
     (if mimeType ref \<noteq> [] then mimeType ref
      else case metadata of Some m \<Rightarrow> MimeType m | None \<Rightarrow> [])"

text \<open>
  \<open>loadInlineFile\<close>: the two clock readings are those of the owner check and of the read of
  the content.
\<close>

definition loadInlineFile ::
  "sha256 \<Rightarrow> faults \<Rightarrow> time \<times> time \<Rightarrow> store \<Rightarrow> string \<Rightarrow> filePartRef
     \<Rightarrow> (error + byte list \<times> string) \<times> store" where
  "loadInlineFile sha flt now s apiKey ref =
     (let fileID = TrimPrefix (fileURI ref) ''files/''
      in case ReadFileBytesForAPIKey sha flt (fst now) (snd now) fileID apiKey maxInlineFileBytes s of
          (Inl err, s') \<Rightarrow> (Inl (normalizeReadError err), s')
        | (Inr (bytes, meta), s') \<Rightarrow> (Inr (bytes, resolveMimeType ref (Some meta)), s'))"

definition part_path :: "nat \<Rightarrow> nat \<Rightarrow> segment list" where
  "part_path ci pi = [Key ''contents'', Index ci, Key ''parts'', Index pi]"

definition applyInlineData :: "json \<Rightarrow> filePartRef \<Rightarrow> string \<Rightarrow> byte list \<Rightarrow> json" where
  "applyInlineData payload ref mime bytes =
     (let inlinePath = part_path (contentIndex ref) (partIndex ref) @ [Key ''inline_data''];
          out = fst (SetBytes payload (inlinePath @ [Key ''mime_type'']) (JString mime));
          out = fst (SetBytes out (inlinePath @ [Key ''data'']) (JString (base64_EncodeToString bytes)));
          out = fst (DeleteBytes out (part_path (contentIndex ref) (partIndex ref) @ [Key ''file_data'']));
          out = fst (DeleteBytes out (part_path (contentIndex ref) (partIndex ref) @ [Key ''fileData'']))
      in out)"

definition inlineLocalFilePart ::
  "sha256 \<Rightarrow> faults \<Rightarrow> time \<times> time \<Rightarrow> json \<Rightarrow> store \<Rightarrow> string \<Rightarrow> filePartRef
     \<Rightarrow> (error + json) \<times> store" where
  "inlineLocalFilePart sha flt now payload s apiKey ref =
     (case loadInlineFile sha flt now s apiKey ref of
        (Inl err, s') \<Rightarrow> (Inl err, s')
      | (Inr (bytes, mime), s') \<Rightarrow> (Inr (applyInlineData payload ref mime bytes), s'))"

text \<open>
  \<open>applyLocalFilePartRefs\<close>: \<open>clock i\<close> are the clock readings made while the \<open>i\<close>-th
  reference is loaded. The first error ends the loop, and no payload is returned with it.
\<close>

fun applyLocalFilePartRefs ::
  "sha256 \<Rightarrow> faults \<Rightarrow> (nat \<Rightarrow> time \<times> time) \<Rightarrow> json \<Rightarrow> store \<Rightarrow> string \<Rightarrow> filePartRef list
     \<Rightarrow> (error + json) \<times> store" where
  "applyLocalFilePartRefs sha flt clock out s apiKey [] = (Inr out, s)"
| "applyLocalFilePartRefs sha flt clock out s apiKey (ref # refs) =
     (case inlineLocalFilePart sha flt (clock 0) out s apiKey ref of
        (Inl err, s') \<Rightarrow> (Inl err, s')
      | (Inr updated, s') \<Rightarrow>
          applyLocalFilePartRefs sha flt (\<lambda>i. clock (Suc i)) updated s' apiKey refs)"

text \<open>\<open>rewriteLocalFileParts\<close>; the store is \<open>None\<close> for the nil pointer.\<close>

definition rewriteLocalFileParts ::
  "sha256 \<Rightarrow> faults \<Rightarrow> (nat \<Rightarrow> time \<times> time) \<Rightarrow> (json \<Rightarrow> string) \<Rightarrow> json \<Rightarrow> store option \<Rightarrow> string
     \<Rightarrow> (error + json) \<times> store option" where
  "rewriteLocalFileParts sha flt clock raw payload store apiKey =
     (case store of
        None \<Rightarrow> (Inr payload, None)
      | Some s \<Rightarrow>
          (case applyLocalFilePartRefs sha flt clock payload s apiKey (findLocalFilePartRefs raw payload) of
             (result, s') \<Rightarrow> (result, Some s')))"

section \<open>Vocabulary of the statements about the store\<close>

text \<open>Two stores hold the same files, sidecars, counter and configuration.\<close>

definition same_disk :: "store \<Rightarrow> store \<Rightarrow> bool" where
  "same_disk s s' \<longleftrightarrow>
     filesDir s' = filesDir s \<and> metadataDir s' = metadataDir s \<and>
     currentTotalSize s' = currentTotalSize s \<and> maxTotalSizeMB s' = maxTotalSizeMB s \<and>
     expirationHours s' = expirationHours s"

text \<open>
  The store-size invariant: the counter is the sum of the sizes of the files in the content
  directory (read as an \<open>int64\<close>), and the directory lists each name once.
\<close>

definition disk_usage :: "store \<Rightarrow> nat" where
  "disk_usage s = sum_list (map (\<lambda>entry. length (snd entry)) (filesDir s))"

definition size_invariant :: "store \<Rightarrow> bool" where
  "size_invariant s \<longleftrightarrow>
     distinct (map fst (filesDir s)) \<and> currentTotalSize s = word_of_nat (disk_usage s)"

text \<open>
  The step at which \<open>SaveFile\<close> fails, read off the environment and the store it starts
  from; \<open>None\<close> when no step fails. Lemma \<open>SaveFile_result\<close> proves that this is the
  result of the code.
\<close>

definition SaveFile_failure :: "sha256 \<Rightarrow> faults \<Rightarrow> time \<Rightarrow> reader \<Rightarrow> store \<Rightarrow> string option" where
  "SaveFile_failure sha flt tID content s =
    (let fileID = generateFileID sha tID; tempName = fileID @ ''.tmp'' in
     if flt (OpCreate (FilesDir, tempName)) then Some ''failed to create temp file''
     else if flt (OpWrite (FilesDir, tempName)) \<or> read_fails content
       then Some ''failed to write file content''
     else if 0 <s maxTotalSizeMB s \<and>
          maxTotalSizeMB s * 1024 * 1024 <s currentTotalSize s + word_of_nat (length (data content))
       then Some ''storage quota exceeded''
     else if flt (OpRename (FilesDir, tempName) (FilesDir, fileID))
       then Some ''failed to finalize file''
     else if flt (OpWriteFile (MetadataDir, fileID @ MetadataFileExtension))
       then Some ''failed to save metadata''
     else None)"

section \<open>Concrete stores\<close>

text \<open>
  The store of the repository's tests, \<open>NewGeminiFileStore(t.TempDir(), 48, 0)\<close>: empty
  directories, 48 hours of retention, no quota. \<open>no_faults\<close> is the environment in which no
  system call fails, \<open>zero_sha\<close> a digest function that maps every input to the zero digest.
\<close>

definition newTestStore :: store where
  "newTestStore = \<lparr>filesDir = [], metadataDir = [], expirationHours = 48, maxTotalSizeMB = 0,
     currentTotalSize = 0, trace = []\<rparr>"

definition no_faults :: faults where
  "no_faults op = False"

definition zero_sha :: sha256 where
  "zero_sha bytes = 0"

text \<open>
  A digest function that tells keys apart by their last byte, and the store of the tests
  after \<open>saveTextFile(t, store, "key-a", "a.txt", "aaa")\<close> at clock reading 0.
\<close>

definition last_byte_sha :: sha256 where
  "last_byte_sha bytes = push_bit 248 (ucast (last bytes))"

definition saved_a :: "(error + FileMetadata) \<times> store" where
  "saved_a = SaveFile last_byte_sha no_faults 0 0 0
     \<lparr>data = string_bytes ''aaa'', read_fails = False\<rparr> ''a.txt'' ''text/plain'' ''a.txt'' ''key-a''
     newTestStore"

text \<open>
  The record of that file, and the store after the test has rewritten the sidecar with an
  expiry one minute before clock reading 0 (\<open>TestGeminiFiles_Get_Expired_NotFound\<close>).
\<close>

definition record_a :: FileMetadata where
  "record_a = newFileMetadata last_byte_sha 0 0 48 (generateFileID last_byte_sha 0)
     (string_bytes ''aaa'') 3 ''a.txt'' ''text/plain'' ''a.txt'' ''key-a''"

definition expired_a :: store where
  "expired_a = (snd saved_a)\<lparr>metadataDir :=
     [(generateFileID last_byte_sha 0 @ MetadataFileExtension,
       Sidecar (record_a\<lparr>ExpiresAt := - 60000000000\<rparr>))]\<rparr>"

text \<open>A store with a quota of one megabyte that holds one file of exactly that size.\<close>

definition mebibyte :: "byte list" where
  "mebibyte = replicate 1048576 0"



definition removal_fails :: faults where
  "removal_fails op = (case op of OpRemove p \<Rightarrow> fst p = FilesDir | _ \<Rightarrow> False)"

text \<open>
  Two uploads, by two callers, whose \<open>generateFileID\<close> reads the same clock value \<open>t\<close>, on the
  store of the tests, for any digest function.
\<close>

definition first_save :: "sha256 \<Rightarrow> time \<Rightarrow> (error + FileMetadata) \<times> store" where
  "first_save sha t = SaveFile sha no_faults t t t
     \<lparr>data = string_bytes ''aaa'', read_fails = False\<rparr> ''a.txt'' ''text/plain'' ''a.txt'' ''key-a''
     newTestStore"

definition second_save :: "sha256 \<Rightarrow> time \<Rightarrow> (error + FileMetadata) \<times> store" where
  "second_save sha t = SaveFile sha no_faults t t t
     \<lparr>data = string_bytes ''bbb'', read_fails = False\<rparr> ''b.txt'' ''text/plain'' ''b.txt'' ''key-b''
     (snd (first_save sha t))"

text \<open>
  The finalize request \<open>POST /upload/v1beta/files?upload_id=...\<close> of a caller with bearer key
  \<open>key-a\<close>, carrying the three bytes \<open>aaa\<close>.
\<close>

definition finalize_request :: "string \<Rightarrow> request" where
  "finalize_request uploadID =
     \<lparr>query_params = [(''upload_id'', uploadID)],
      header_fields = [(''Authorization'', ''Bearer key-a''),
        (''X-Goog-Upload-Protocol'', ''resumable''), (''X-Goog-Upload-Command'', ''upload, finalize'')],
      context_apiKey = None,
      request_body = \<lparr>data = string_bytes ''aaa'', read_fails = False\<rparr>\<rparr>"

text \<open>
  An executor that answers every call as the upstream does a resumable start, with the
  credential \<open>c1\<close> selected; a manager with that executor whose selection picks the credential
  \<open>c2\<close>; the upload id of the upstream's URL; and the proxy's own URL.
\<close>

definition upstream_c1 :: "exec_call \<Rightarrow> exec_error + exec_response" where
  "upstream_c1 call = Inr \<lparr>resp_status = 200,
     resp_headers = [(''X-Goog-Upload-Url'', ''https://upstream.example/upload/v1beta/files?upload_id=u-123'')],
     resp_payload = [], selected_auth_id = Some ''c1''\<rparr>"

definition example_upload_id :: "string \<Rightarrow> string" where
  "example_upload_id raw =
     (if raw = ''https://upstream.example/upload/v1beta/files?upload_id=u-123'' then ''u-123'' else [])"

definition example_proxy_url :: "string \<Rightarrow> string" where
  "example_proxy_url uploadID = ''http://127.0.0.1:8317/upload/v1beta/files?upload_id='' @ uploadID"

text \<open>
  The session table after a resumable start at clock reading 0 that the upstream answered
  with that URL: the upload id \<open>u-123\<close> is bound to \<open>c1\<close>.
\<close>

definition started_c1 :: sessions where
  "started_c1 = fst (snd (handleResumableStart (Some \<lparr>Execute = upstream_c1, PickAuth = Inr ''c2''\<rparr>)
     example_upload_id example_proxy_url 0 Map.empty))"

text \<open>
  The follow-up \<open>POST /upload/v1beta/files?upload_id=u-123\<close> with the header
  \<open>X-Goog-Upload-Command: upload, finalize\<close>, without and with the header
  \<open>X-Goog-Upload-Protocol: resumable\<close>.
\<close>

definition follow_up_request :: request where
  "follow_up_request =
     \<lparr>query_params = [(''upload_id'', ''u-123'')],
      header_fields = [(''X-Goog-Upload-Command'', ''upload, finalize''), (''X-Goog-Upload-Offset'', ''0'')],
      context_apiKey = None,
      request_body = \<lparr>data = string_bytes ''aaa'', read_fails = False\<rparr>\<rparr>"

definition follow_up_request_with_protocol :: request where
  "follow_up_request_with_protocol =
     follow_up_request\<lparr>header_fields :=
       (''X-Goog-Upload-Protocol'', ''resumable'') # header_fields follow_up_request\<rparr>"

text \<open>
  The upload of the tests by a caller \<open>owner\<close>, on the store of the tests, for any digest
  function.
\<close>

definition owner_save :: "sha256 \<Rightarrow> string \<Rightarrow> (error + FileMetadata) \<times> store" where
  "owner_save sha owner = SaveFile sha no_faults 0 0 0
     \<lparr>data = string_bytes ''aaa'', read_fails = False\<rparr> ''a.txt'' ''text/plain'' ''a.txt'' owner
     newTestStore"
section \<open>Identifiers: hexadecimal encoding and validation\<close>

lemma char_in_range:
  fixes c :: char
  assumes "lo \<le> c" "c \<le> hi"
    and "\<forall>n\<in>set [of_char lo ..< Suc (of_char hi)]. char_of (n::nat) \<in> A"
  shows "c \<in> A"
proof -
  have "(of_char c :: nat) \<in> set [of_char lo ..< Suc (of_char hi)]"
    using assms(1,2) unfolding less_eq_char_def set_upt atLeastLessThan_iff
    by (blast intro: le_imp_less_Suc)
  with assms(3) have "char_of (of_char c :: nat) \<in> A" by blast
  then show ?thesis by simp
qed

lemma digit_chars: "CHR ''0'' \<le> c \<and> c \<le> CHR ''9'' \<longleftrightarrow> c \<in> set ''0123456789''"
proof
  assume "CHR ''0'' \<le> c \<and> c \<le> CHR ''9''"
  moreover have "\<forall>n\<in>set [of_char CHR ''0'' ..< Suc (of_char CHR ''9'')]. char_of (n::nat) \<in> set ''0123456789''"
    by code_simp
  ultimately show "c \<in> set ''0123456789''"
    using char_in_range by blast
next
  assume "c \<in> set ''0123456789''"
  then show "CHR ''0'' \<le> c \<and> c \<le> CHR ''9''" by auto
qed

lemma lower_chars: "CHR ''a'' \<le> c \<and> c \<le> CHR ''f'' \<longleftrightarrow> c \<in> set ''abcdef''"
proof
  assume "CHR ''a'' \<le> c \<and> c \<le> CHR ''f''"
  moreover have "\<forall>n\<in>set [of_char CHR ''a'' ..< Suc (of_char CHR ''f'')]. char_of (n::nat) \<in> set ''abcdef''"
    by code_simp
  ultimately show "c \<in> set ''abcdef''"
    using char_in_range by blast
next
  assume "c \<in> set ''abcdef''"
  then show "CHR ''a'' \<le> c \<and> c \<le> CHR ''f''" by auto
qed

lemma upper_chars: "CHR ''A'' \<le> c \<and> c \<le> CHR ''F'' \<longleftrightarrow> c \<in> set ''ABCDEF''"
proof
  assume "CHR ''A'' \<le> c \<and> c \<le> CHR ''F''"
  moreover have "\<forall>n\<in>set [of_char CHR ''A'' ..< Suc (of_char CHR ''F'')]. char_of (n::nat) \<in> set ''ABCDEF''"
    by code_simp
  ultimately show "c \<in> set ''ABCDEF''"
    using char_in_range by blast
next
  assume "c \<in> set ''ABCDEF''"
  then show "CHR ''A'' \<le> c \<and> c \<le> CHR ''F''" by auto
qed

lemma validFileIDChars_iff:
  "validFileIDChars cs \<longleftrightarrow> (\<forall>c\<in>set cs. c \<in> set ''0123456789abcdefABCDEF'')"
proof (induction cs)
  case Nil show ?case by simp
next
  case (Cons c cs)
  have "validFileIDChars (c # cs) \<longleftrightarrow>
    (c \<in> set ''0123456789'' \<or> c \<in> set ''abcdef'' \<or> c \<in> set ''ABCDEF'') \<and> validFileIDChars cs"
    unfolding digit_chars[symmetric] lower_chars[symmetric] upper_chars[symmetric]
    by (auto simp: Let_def)
  then show ?case using Cons by auto
qed

lemma hextable_nth: "n < 16 \<Longrightarrow> hextable ! n \<in> set ''0123456789abcdef''"
proof -
  have "\<forall>n\<in>set [0..<16]. hextable ! n \<in> set ''0123456789abcdef''" by code_simp
  then show "n < 16 \<Longrightarrow> hextable ! n \<in> set ''0123456789abcdef''" by simp
qed

lemma nibble_lo: "unat ((b::byte) AND 15) < 16"
proof -
  have "b AND 15 \<le> 15" by (rule word_and_le1)
  then show ?thesis by (simp add: word_le_nat_alt)
qed

lemma nibble_hi: "unat (drop_bit 4 (b::byte)) < 16"
proof -
  have "unat b < 256" using unsigned_less[of b, where ?'a = nat] by simp
  moreover have "unat (drop_bit 4 b) = unat b div 16"
    by (simp add: unat_drop_bit_eq drop_bit_eq_div unat_div)
  ultimately show ?thesis by simp
qed

lemma EncodeToString_length: "length (EncodeToString bs) = 2 * length bs"
  by (induction bs) auto

lemma EncodeToString_hex: "set (EncodeToString bs) \<subseteq> set ''0123456789abcdef''"
proof (induction bs)
  case Nil show ?case by simp
next
  case (Cons b bs)
  show ?case using Cons hextable_nth[OF nibble_lo[of b]] hextable_nth[OF nibble_hi[of b]]
    by simp 
qed

lemma digest_bytes_length: "length (digest_bytes w) = 32"
  by (simp add: digest_bytes_def)

lemma isValidFileID_iff:
  "isValidFileID fileID \<longleftrightarrow>
     length fileID = 32 \<and> (\<forall>c\<in>set fileID. c \<in> set ''0123456789abcdefABCDEF'')"
  unfolding isValidFileID_def validFileIDChars_iff by simp

lemma GenerateFileID_length: "length (GenerateFileID sha now) = 32"
  by (simp add: GenerateFileID_def EncodeToString_length digest_bytes_length)

lemma GenerateFileID_hex: "set (GenerateFileID sha now) \<subseteq> set ''0123456789abcdef''"
  unfolding GenerateFileID_def Let_def by (rule EncodeToString_hex)

lemma lower_hex_subset: "set ''0123456789abcdef'' \<subseteq> set ''0123456789abcdefABCDEF''"
  by simp

lemma isValidFileID_generateFileID: "isValidFileID (generateFileID sha now)"
  unfolding isValidFileID_iff generateFileID_def
  using GenerateFileID_length[of sha now] GenerateFileID_hex[of sha now] lower_hex_subset
  by blast

lemma hashAPIKey_empty_iff: "hashAPIKey sha apiKey = [] \<longleftrightarrow> apiKey = []"
proof -
  have "length (EncodeToString (take 8 (digest_bytes (sha (string_bytes apiKey))))) = 16"
    by (simp add: EncodeToString_length digest_bytes_length)
  then have "EncodeToString (take 8 (digest_bytes (sha (string_bytes apiKey)))) \<noteq> []"
    by auto
  then show ?thesis by (simp add: hashAPIKey_def)
qed

lemma isOwnedByAPIKey_iff:
  "APIKey metadata = hashAPIKey sha owner \<Longrightarrow>
     isOwnedByAPIKey sha metadata apiKey \<longleftrightarrow> hashAPIKey sha apiKey = hashAPIKey sha owner"
  unfolding isOwnedByAPIKey_def using hashAPIKey_empty_iff[of sha apiKey] hashAPIKey_empty_iff[of sha owner]
  by (auto simp: hashAPIKey_def)

section \<open>The store: effects of the operations\<close>

lemma same_disk_refl [simp]: "same_disk s s"
  by (simp add: same_disk_def)

lemma same_disk_logged [simp]: "same_disk s (logged op s') \<longleftrightarrow> same_disk s s'"
  by (simp add: same_disk_def logged_def)

lemma loadMetadata_invalid:
  "\<not> isValidFileID fileID \<Longrightarrow> loadMetadata flt fileID s = (Inl ErrFileNotFound, s)"
  by (simp add: loadMetadata_def)

lemma loadMetadata_same_disk: "same_disk s (snd (loadMetadata flt fileID s))"
  by (simp add: loadMetadata_def Let_def split: option.splits meta_entry.splits)

lemma loadMetadata_cases:
  "isValidFileID fileID \<Longrightarrow> \<not> flt (OpReadFile (MetadataDir, fileID @ MetadataFileExtension)) \<Longrightarrow>
   fst (loadMetadata flt fileID s) =
     (case map_of (metadataDir s) (fileID @ MetadataFileExtension) of
        None \<Rightarrow> Inl ErrFileNotFound
      | Some SubDir \<Rightarrow> Inl (Errorf ''failed to read metadata'')
      | Some Garbage \<Rightarrow> Inl (Errorf ''failed to unmarshal metadata'')
      | Some (Sidecar metadata) \<Rightarrow> Inr metadata)"
  by (simp add: loadMetadata_def Let_def logged_def split: option.splits meta_entry.splits)

lemma GetFileForAPIKey_same_disk: "same_disk s (snd (GetFileForAPIKey sha flt now fileID apiKey s))"
  using loadMetadata_same_disk[of s flt fileID]
  by (auto simp: GetFileForAPIKey_def GetFile_def split: prod.splits sum.splits)

lemma GetFileForAPIKey_Inr:
  "fst (GetFileForAPIKey sha flt now fileID apiKey s) = Inr metadata \<longleftrightarrow>
     fst (loadMetadata flt fileID s) = Inr metadata \<and> isOwnedByAPIKey sha metadata apiKey \<and>
     \<not> isExpired metadata now"
  by (auto simp: GetFileForAPIKey_def GetFile_def split: prod.splits sum.splits)

lemma GetFileForAPIKey_NotFound:
  "fst (GetFileForAPIKey sha flt now fileID apiKey s) = Inl ErrFileNotFound \<longleftrightarrow>
     fst (loadMetadata flt fileID s) = Inl ErrFileNotFound \<or>
     (\<exists>metadata. fst (loadMetadata flt fileID s) = Inr metadata \<and>
        (\<not> isOwnedByAPIKey sha metadata apiKey \<or> isExpired metadata now))"
  by (auto simp: GetFileForAPIKey_def GetFile_def split: prod.splits sum.splits)


lemma delete_absent: "map_of al k = None \<Longrightarrow> AList.delete k al = al"
  by (simp add: map_of_eq_None_iff)



lemma os_Remove_FilesDir:
  "\<not> flt (OpRemove (FilesDir, name)) \<Longrightarrow>
     filesDir (snd (os_Remove flt (FilesDir, name) s)) = AList.delete name (filesDir s) \<and>
     metadataDir (snd (os_Remove flt (FilesDir, name) s)) = metadataDir s \<and>
     currentTotalSize (snd (os_Remove flt (FilesDir, name) s)) = currentTotalSize s \<and>
     fst (os_Remove flt (FilesDir, name) s) \<noteq> RemoveFailed"
  by (simp add: os_Remove_def Let_def logged_def delete_absent)

lemma os_Remove_MetadataDir:
  "\<not> flt (OpRemove (MetadataDir, name)) \<Longrightarrow>
     filesDir (snd (os_Remove flt (MetadataDir, name) s)) = filesDir s \<and>
     metadataDir (snd (os_Remove flt (MetadataDir, name) s)) = AList.delete name (metadataDir s) \<and>
     currentTotalSize (snd (os_Remove flt (MetadataDir, name) s)) = currentTotalSize s \<and>
     fst (os_Remove flt (MetadataDir, name) s) \<noteq> RemoveFailed"
  by (simp add: os_Remove_def Let_def logged_def delete_absent)


lemma deleteFileUnsafe_invalid:
  "\<not> isValidFileID fileID \<Longrightarrow> deleteFileUnsafe flt fileID s = (Some ErrFileNotFound, s)"
  by (simp add: deleteFileUnsafe_def)





lemma tmp_neq [simp]: "fileID @ ''.tmp'' \<noteq> fileID" "fileID \<noteq> fileID @ ''.tmp''"
  by simp_all

lemma newFileMetadata_sel [simp]:
  "FileID (newFileMetadata sha tc te h fileID bytes written name mime displayName apiKey) = fileID"
  "SizeBytes (newFileMetadata sha tc te h fileID bytes written name mime displayName apiKey) = written"
  "SHA256Hash (newFileMetadata sha tc te h fileID bytes written name mime displayName apiKey) =
     EncodeToString (digest_bytes (sha bytes))"
  "ExpiresAt (newFileMetadata sha tc te h fileID bytes written name mime displayName apiKey) =
     te + sint (h * 3600000000000)"
  "APIKey (newFileMetadata sha tc te h fileID bytes written name mime displayName apiKey) =
     hashAPIKey sha apiKey"
  by (simp_all add: newFileMetadata_def)

lemma logged_sel [simp]:
  "filesDir (logged op s) = filesDir s" "metadataDir (logged op s) = metadataDir s"
  "currentTotalSize (logged op s) = currentTotalSize s" "maxTotalSizeMB (logged op s) = maxTotalSizeMB s"
  "expirationHours (logged op s) = expirationHours s"
  by (simp_all add: logged_def)

lemma os_Create_sel:
  "fst (os_Create flt name s) = (\<not> flt (OpCreate (FilesDir, name)))"
  "filesDir (snd (os_Create flt name s)) =
     (if flt (OpCreate (FilesDir, name)) then filesDir s else AList.update name [] (filesDir s))"
  "metadataDir (snd (os_Create flt name s)) = metadataDir s"
  "currentTotalSize (snd (os_Create flt name s)) = currentTotalSize s"
  "maxTotalSizeMB (snd (os_Create flt name s)) = maxTotalSizeMB s"
  "expirationHours (snd (os_Create flt name s)) = expirationHours s"
  by (simp_all add: os_Create_def Let_def)

lemma io_Copy_sel:
  "fst (io_Copy flt name content s) =
     (if flt (OpWrite (FilesDir, name)) \<or> read_fails content then None
      else Some (word_of_nat (length (data content))))"
  "filesDir (snd (io_Copy flt name content s)) =
     (if flt (OpWrite (FilesDir, name)) then filesDir s
      else AList.update name (data content) (filesDir s))"
  "metadataDir (snd (io_Copy flt name content s)) = metadataDir s"
  "currentTotalSize (snd (io_Copy flt name content s)) = currentTotalSize s"
  "maxTotalSizeMB (snd (io_Copy flt name content s)) = maxTotalSizeMB s"
  "expirationHours (snd (io_Copy flt name content s)) = expirationHours s"
  by (simp_all add: io_Copy_def Let_def)

lemma os_Rename_sel:
  "fst (os_Rename flt old new s) =
     (\<not> flt (OpRename (FilesDir, old) (FilesDir, new)) \<and> map_of (filesDir s) old \<noteq> None)"
  "filesDir (snd (os_Rename flt old new s)) =
     (if flt (OpRename (FilesDir, old) (FilesDir, new)) then filesDir s
      else case map_of (filesDir s) old of None \<Rightarrow> filesDir s
        | Some bytes \<Rightarrow> AList.update new bytes (AList.delete old (filesDir s)))"
  "metadataDir (snd (os_Rename flt old new s)) = metadataDir s"
  "currentTotalSize (snd (os_Rename flt old new s)) = currentTotalSize s"
  "maxTotalSizeMB (snd (os_Rename flt old new s)) = maxTotalSizeMB s"
  "expirationHours (snd (os_Rename flt old new s)) = expirationHours s"
  by (simp_all add: os_Rename_def Let_def split: option.splits)

lemma saveMetadata_sel:
  "fst (saveMetadata flt metadata s) =
     (\<not> flt (OpWriteFile (MetadataDir, FileID metadata @ MetadataFileExtension)))"
  "filesDir (snd (saveMetadata flt metadata s)) = filesDir s"
  "metadataDir (snd (saveMetadata flt metadata s)) =
     (if flt (OpWriteFile (MetadataDir, FileID metadata @ MetadataFileExtension)) then metadataDir s
      else AList.update (FileID metadata @ MetadataFileExtension) (Sidecar metadata) (metadataDir s))"
  "currentTotalSize (snd (saveMetadata flt metadata s)) = currentTotalSize s"
  "maxTotalSizeMB (snd (saveMetadata flt metadata s)) = maxTotalSizeMB s"
  "expirationHours (snd (saveMetadata flt metadata s)) = expirationHours s"
  by (simp_all add: saveMetadata_def Let_def)

lemma os_Remove_sel:
  "fst (os_Remove flt p s) = RemoveFailed \<longleftrightarrow> flt (OpRemove p)"
  "filesDir (snd (os_Remove flt p s)) =
     (if flt (OpRemove p) \<or> fst p = MetadataDir then filesDir s
      else AList.delete (snd p) (filesDir s))"
  "metadataDir (snd (os_Remove flt p s)) =
     (if flt (OpRemove p) \<or> fst p = FilesDir then metadataDir s
      else AList.delete (snd p) (metadataDir s))"
  "currentTotalSize (snd (os_Remove flt p s)) = currentTotalSize s"
  "maxTotalSizeMB (snd (os_Remove flt p s)) = maxTotalSizeMB s"
  "expirationHours (snd (os_Remove flt p s)) = expirationHours s"
  by (auto simp: os_Remove_def Let_def delete_absent split: dir.splits)

lemmas sel_simps = os_Create_sel io_Copy_sel os_Rename_sel saveMetadata_sel os_Remove_sel

lemma SaveFile_body_unfold:
  "SaveFile_body sha flt tCreated tExpires fileID content name mime displayName apiKey s =
    (let r1 = io_Copy flt (fileID @ ''.tmp'') content s; s1 = snd r1 in
     if fst r1 = None then (Inl (Errorf ''failed to write file content''), s1)
     else if 0 <s maxTotalSizeMB s1 \<and>
              maxTotalSizeMB s1 * 1024 * 1024 <s currentTotalSize s1 + the (fst r1)
     then (Inl (Errorf ''storage quota exceeded''), s1)
     else let r2 = os_Rename flt (fileID @ ''.tmp'') fileID s1; s2 = snd r2 in
       if \<not> fst r2 then (Inl (Errorf ''failed to finalize file''), s2)
       else let s3 = s2\<lparr>currentTotalSize := currentTotalSize s2 + the (fst r1)\<rparr>;
                metadata = newFileMetadata sha tCreated tExpires (expirationHours s3)
                        fileID (data content) (the (fst r1)) name mime displayName apiKey;
                r4 = saveMetadata flt metadata s3; s4 = snd r4
            in if \<not> fst r4 then
                 (let s5 = snd (os_Remove flt (FilesDir, fileID) s4)
                  in (Inl (Errorf ''failed to save metadata''),
                             s5\<lparr>currentTotalSize := currentTotalSize s5 - the (fst r1)\<rparr>))
               else (Inr metadata, s4))"
  unfolding SaveFile_body_def Let_def
  by (simp split: prod.splits option.splits bool.splits)

lemma SaveFile_unfold:
  "SaveFile sha flt tID tCreated tExpires content name mime displayName apiKey s =
     (let fileID = generateFileID sha tID; tempName = fileID @ ''.tmp'';
          r0 = os_Create flt tempName s; s1 = snd r0 in
      if \<not> fst r0 then (Inl (Errorf ''failed to create temp file''), s1)
      else let r = SaveFile_body sha flt tCreated tExpires fileID content name mime
                    displayName apiKey s1
           in (fst r, snd (os_Remove flt (FilesDir, tempName) (snd r))))"
  unfolding SaveFile_def Let_def
  by (simp split: prod.splits bool.splits)

lemma SaveFile_result:
  "fst (SaveFile sha flt tID tCreated tExpires content name mime displayName apiKey s) =
    (case SaveFile_failure sha flt tID content s of
       Some msg \<Rightarrow> Inl (Errorf msg)
     | None \<Rightarrow> Inr (newFileMetadata sha tCreated tExpires (expirationHours s) (generateFileID sha tID)
            (data content) (word_of_nat (length (data content))) name mime displayName apiKey))"
  unfolding SaveFile_unfold SaveFile_body_unfold SaveFile_failure_def Let_def
  by (simp add: sel_simps AList.update_conv')


lemma SaveFile_metadataDir:
  "metadataDir (snd (SaveFile sha flt tID tCreated tExpires content name mime displayName apiKey s)) =
    (case SaveFile_failure sha flt tID content s of
       Some msg \<Rightarrow> metadataDir s
     | None \<Rightarrow> AList.update (generateFileID sha tID @ MetadataFileExtension)
         (Sidecar (newFileMetadata sha tCreated tExpires (expirationHours s) (generateFileID sha tID)
            (data content) (word_of_nat (length (data content))) name mime displayName apiKey))
         (metadataDir s))"
  unfolding SaveFile_unfold SaveFile_body_unfold SaveFile_failure_def Let_def
  by (simp add: sel_simps AList.update_conv')

lemma SaveFile_currentTotalSize:
  "currentTotalSize (snd (SaveFile sha flt tID tCreated tExpires content name mime displayName apiKey s)) =
    (case SaveFile_failure sha flt tID content s of
       Some msg \<Rightarrow> currentTotalSize s
     | None \<Rightarrow> currentTotalSize s + word_of_nat (length (data content)))"
  unfolding SaveFile_unfold SaveFile_body_unfold SaveFile_failure_def Let_def
  by (simp add: sel_simps AList.update_conv')

lemma SaveFile_filesDir:
  assumes "map_of (filesDir s) (generateFileID sha tID) = None"
      "map_of (filesDir s) (generateFileID sha tID @ ''.tmp'') = None"
    and "\<not> flt (OpRemove (FilesDir, generateFileID sha tID))"
      "\<not> flt (OpRemove (FilesDir, generateFileID sha tID @ ''.tmp''))"
  shows "filesDir (snd (SaveFile sha flt tID tCreated tExpires content name mime displayName apiKey s)) =
    (case SaveFile_failure sha flt tID content s of
       Some msg \<Rightarrow> filesDir s
     | None \<Rightarrow> AList.update (generateFileID sha tID) (data content) (filesDir s))"
  unfolding SaveFile_unfold SaveFile_body_unfold SaveFile_failure_def Let_def
  using assms
  by (simp add: sel_simps AList.update_conv' AList.delete_update_same AList.delete_update
      delete_absent)






lemma ListFiles_loop_step:
  "\<exists>files' s'. same_disk s s' \<and>
      (files' = files \<or> (\<exists>metadata. files' = files @ [metadata] \<and> \<not> isExpired metadata now)) \<and>
      ListFiles_loop flt now (entry # entries) files s = ListFiles_loop flt now entries files' s'"
proof -
  let ?id = "TrimSuffix entry MetadataFileExtension"
  let ?skip = "map_of (metadataDir s) entry = Some SubDir \<or> \<not> HasSuffix entry MetadataFileExtension"
  let ?P = "\<lambda>files' s'. same_disk s s' \<and>
      (files' = files \<or> (\<exists>metadata. files' = files @ [metadata] \<and> \<not> isExpired metadata now)) \<and>
      ListFiles_loop flt now (entry # entries) files s = ListFiles_loop flt now entries files' s'"
  obtain r s1 where load: "loadMetadata flt ?id s = (r, s1)"
    by (cases "loadMetadata flt ?id s")
  have disk: "same_disk s s1" using loadMetadata_same_disk[of s flt ?id] load by simp
  show ?thesis
  proof (cases ?skip)
    case True
    then have "?P files s" by simp
    then show ?thesis by blast
  next
    case False
    show ?thesis
    proof (cases r)
      case (Inl err)
      then have "?P files s1" using False load disk by (simp add: Let_def)
      then show ?thesis by blast
    next
      case (Inr metadata)
      show ?thesis
      proof (cases "isExpired metadata now")
        case True
        then have "?P files s1" using False load disk Inr by (simp add: Let_def)
        then show ?thesis by blast
      next
        case notexp: False
        then have "?P (files @ [metadata]) s1" using False load disk Inr by (simp add: Let_def)
        then show ?thesis by blast
      qed
    qed
  qed
qed

lemma ListFiles_loop_not_expired:
  "\<forall>metadata\<in>set files. \<not> isExpired metadata now \<Longrightarrow>
     \<forall>metadata\<in>set (fst (ListFiles_loop flt now entries files s)). \<not> isExpired metadata now"
proof (induction entries arbitrary: files s)
  case Nil
  then show ?case by simp
next
  case (Cons entry entries)
  obtain files' s' where
    acc: "files' = files \<or> (\<exists>metadata. files' = files @ [metadata] \<and> \<not> isExpired metadata now)"
    and step: "ListFiles_loop flt now (entry # entries) files s = ListFiles_loop flt now entries files' s'"
    using ListFiles_loop_step[of s files now flt entry entries] by blast
  have "\<forall>metadata\<in>set files'. \<not> isExpired metadata now"
    using acc Cons.prems by auto
  then show ?case unfolding step by (rule Cons.IH)
qed

lemma same_disk_trans: "same_disk s s' \<Longrightarrow> same_disk s' s'' \<Longrightarrow> same_disk s s''"
  by (simp add: same_disk_def)

lemma ListFiles_loop_same_disk:
  "same_disk s (snd (ListFiles_loop flt now entries files s))"
proof (induction entries arbitrary: files s)
  case Nil
  show ?case by simp
next
  case (Cons entry entries)
  obtain files' s' where disk: "same_disk s s'"
    and step: "ListFiles_loop flt now (entry # entries) files s = ListFiles_loop flt now entries files' s'"
    using ListFiles_loop_step[of s files now flt entry entries] by blast
  show ?case unfolding step using disk Cons.IH[of s' files'] by (rule same_disk_trans)
qed

lemma ListFiles_not_expired:
  "fst (ListFiles flt now s) = Inr files \<Longrightarrow> \<forall>metadata\<in>set files. \<not> isExpired metadata now"
  using ListFiles_loop_not_expired[of "[]" now flt "ReadDir_names (metadataDir (logged (OpReadDir MetadataDir) s))"
      "logged (OpReadDir MetadataDir) s"]
  by (auto simp: ListFiles_def Let_def split: if_splits prod.splits)

lemma ListFiles_same_disk: "same_disk s (snd (ListFiles flt now s))"
proof -
  have "same_disk (logged (OpReadDir MetadataDir) s)
     (snd (ListFiles_loop flt now (ReadDir_names (metadataDir (logged (OpReadDir MetadataDir) s))) []
        (logged (OpReadDir MetadataDir) s)))"
    by (rule ListFiles_loop_same_disk)
  then show ?thesis
    by (auto simp: ListFiles_def Let_def same_disk_def split: prod.splits)
qed

lemma DeleteFileForAPIKey_NotFound:
  "fst (GetFileForAPIKey sha flt now fileID apiKey s) = Inl ErrFileNotFound \<Longrightarrow>
     fst (DeleteFileForAPIKey sha flt now now' fileID apiKey s) = Some ErrFileNotFound \<and>
     same_disk s (snd (DeleteFileForAPIKey sha flt now now' fileID apiKey s))"
  using GetFileForAPIKey_same_disk[of s sha flt now fileID apiKey]
  by (cases "GetFileForAPIKey sha flt now fileID apiKey s")
     (auto simp: DeleteFileForAPIKey_def split: sum.splits)

text \<open>The concrete stores.\<close>

lemma digest_bytes_last_byte_sha:
  "bytes \<noteq> [] \<Longrightarrow> digest_bytes (last_byte_sha bytes) = last bytes # replicate 31 0"
proof -
  let ?w = "push_bit 248 (ucast (last bytes)) :: 256 word"
  let ?f = "\<lambda>i. ucast (drop_bit (8 * (31 - i)) ?w) :: byte"
  have first: "?f 0 = last bytes"
    by (rule bit_word_eqI) (auto simp: bit_simps)
  have rest: "?f i = 0" if "i \<in> set [1..<32]" for i
    using that by (intro bit_word_eqI) (auto simp: bit_simps)
  have "map ?f [1..<32] = replicate 31 0"
    using rest by (intro replicate_eqI) auto
  moreover have "[0..<32] = 0 # [1..<32]" by (simp add: upt_rec)
  ultimately show ?thesis using first by (simp add: digest_bytes_def last_byte_sha_def)
qed

lemma EncodeToString_zeros: "EncodeToString (replicate n 0) = replicate (2 * n) (CHR ''0'')"
  by (induction n) (simp_all add: hextable_def)

lemma hash_key_a: "hashAPIKey last_byte_sha ''key-a'' = ''61'' @ replicate 14 (CHR ''0'')"
  by (simp add: hashAPIKey_def digest_bytes_last_byte_sha string_bytes_def hextable_def
      EncodeToString_zeros)

lemma hash_key_b: "hashAPIKey last_byte_sha ''key-b'' = ''62'' @ replicate 14 (CHR ''0'')"
  by (simp add: hashAPIKey_def digest_bytes_last_byte_sha string_bytes_def hextable_def
      EncodeToString_zeros)

lemma SaveFile_failure_no_faults:
  "maxTotalSizeMB s = 0 \<Longrightarrow> \<not> read_fails content \<Longrightarrow>
     SaveFile_failure sha no_faults tID content s = None"
  by (simp add: SaveFile_failure_def no_faults_def Let_def)

lemma saved_a_result:
  "fst saved_a = Inr (newFileMetadata last_byte_sha 0 0 48 (generateFileID last_byte_sha 0)
     (string_bytes ''aaa'') (word_of_nat (length (string_bytes ''aaa''))) ''a.txt'' ''text/plain'' ''a.txt'' ''key-a'')"
  unfolding saved_a_def SaveFile_result
  by (simp add: SaveFile_failure_no_faults newTestStore_def)

lemma saved_a_metadataDir:
  "metadataDir (snd saved_a) =
     [(generateFileID last_byte_sha 0 @ MetadataFileExtension,
       Sidecar (newFileMetadata last_byte_sha 0 0 48 (generateFileID last_byte_sha 0)
     (string_bytes ''aaa'') (word_of_nat (length (string_bytes ''aaa''))) ''a.txt'' ''text/plain'' ''a.txt'' ''key-a''))]"
  unfolding saved_a_def SaveFile_metadataDir
  by (simp add: SaveFile_failure_no_faults newTestStore_def)

lemma saved_a_filesDir:
  "filesDir (snd saved_a) = [(generateFileID last_byte_sha 0, string_bytes ''aaa'')]"
  unfolding saved_a_def
  by (subst SaveFile_filesDir)
     (simp_all add: SaveFile_failure_no_faults newTestStore_def no_faults_def)

lemma saved_a_currentTotalSize: "currentTotalSize (snd saved_a) = 3"
  unfolding saved_a_def SaveFile_currentTotalSize
  by (simp add: SaveFile_failure_no_faults newTestStore_def string_bytes_def)

lemma saved_a_record: "fst saved_a = Inr record_a"
  by (simp add: saved_a_result record_a_def string_bytes_def)

lemma loadMetadata_expired_a:
  "fst (loadMetadata no_faults (generateFileID last_byte_sha 0) expired_a) =
     Inr (record_a\<lparr>ExpiresAt := - 60000000000\<rparr>)"
  by (subst loadMetadata_cases)
     (simp_all add: isValidFileID_generateFileID no_faults_def expired_a_def)

text \<open>The quota test, read on the integers.\<close>

lemma sint_word_of_nat_64:
  "n < 2 ^ 63 \<Longrightarrow> sint (word_of_nat n :: int64) = int n"
proof -
  assume "n < 2 ^ 63"
  then have "int n < 2 ^ 63" by (metis of_nat_less_numeral_power_cancel_iff)
  then have "signed_take_bit 63 (int n) = int n"
    by (intro signed_take_bit_int_eq_self) simp_all
  moreover have "(word_of_nat n :: int64) = word_of_int (int n)" by simp
  ultimately show ?thesis by (simp only: sint_sbintrunc') simp
qed




lemma length_mebibyte: "length mebibyte = 1048576"
  unfolding mebibyte_def by (rule length_replicate)




lemma calculateTotalSize_size_invariant:
  assumes "distinct (map fst (filesDir s))" and "\<forall>p. \<not> flt (OpStat p)" and "\<not> flt (OpReadDir FilesDir)"
  shows "size_invariant (snd (calculateTotalSize flt s))"
proof -
  have "sum_list (map (\<lambda>(name, bytes). word_of_nat (length bytes) :: int64) al) =
      word_of_nat (sum_list (map (\<lambda>entry. length (snd entry)) al))" for al :: "(string \<times> byte list) list"
    by (induction al) auto
  then show ?thesis
    using assms by (simp add: calculateTotalSize_def Let_def size_invariant_def disk_usage_def logged_def)
qed





text \<open>
  A delete whose \<open>os.Remove\<close> of the content file fails has already lowered the counter:
  \<open>deleteFileUnsafe\<close> subtracts the size right after \<open>os.Stat\<close>.
\<close>

lemma failed_removal_still_decrements:
  "fst (DeleteFile removal_fails (generateFileID last_byte_sha 0) (snd saved_a)) =
     Some (Errorf ''failed to remove file'') \<and>
   filesDir (snd (DeleteFile removal_fails (generateFileID last_byte_sha 0) (snd saved_a))) =
     filesDir (snd saved_a) \<and>
   currentTotalSize (snd saved_a) = 3 \<and>
   currentTotalSize (snd (DeleteFile removal_fails (generateFileID last_byte_sha 0) (snd saved_a))) = 0"
  by (simp add: DeleteFile_def deleteFileUnsafe_def isValidFileID_generateFileID Let_def
      removal_fails_def os_Remove_def saved_a_filesDir saved_a_currentTotalSize string_bytes_def)

lemma SaveFile_config:
  "maxTotalSizeMB (snd (SaveFile sha flt tID tCreated tExpires content name mime displayName apiKey s)) =
     maxTotalSizeMB s"
  "expirationHours (snd (SaveFile sha flt tID tCreated tExpires content name mime displayName apiKey s)) =
     expirationHours s"
  unfolding SaveFile_unfold SaveFile_body_unfold Let_def
  by (simp_all add: sel_simps)

lemma first_save_store:
  "filesDir (snd (first_save sha t)) = [(generateFileID sha t, string_bytes ''aaa'')]"
  "currentTotalSize (snd (first_save sha t)) = 3"
  "maxTotalSizeMB (snd (first_save sha t)) = 0"
  "expirationHours (snd (first_save sha t)) = 48"
proof -
  show "filesDir (snd (first_save sha t)) = [(generateFileID sha t, string_bytes ''aaa'')]"
    unfolding first_save_def
    by (subst SaveFile_filesDir)
       (simp_all add: SaveFile_failure_no_faults newTestStore_def no_faults_def)
  show "currentTotalSize (snd (first_save sha t)) = 3"
    unfolding first_save_def SaveFile_currentTotalSize
    by (simp add: SaveFile_failure_no_faults newTestStore_def string_bytes_def)
  show "maxTotalSizeMB (snd (first_save sha t)) = 0" "expirationHours (snd (first_save sha t)) = 48"
    by (simp_all add: first_save_def SaveFile_config newTestStore_def)
qed

text \<open>
  The owner hash keeps eight bytes of the digest, so of the infinitely many keys two have
  the same hash, whatever the digest function; and a record is handed to every key with the
  hash of its owner's.
\<close>

lemma hashAPIKey_range:
  "hashAPIKey sha ` {k. k \<noteq> []} \<subseteq> {xs. set xs \<subseteq> set ''0123456789abcdef'' \<and> length xs = 16}"
  by (auto simp: hashAPIKey_def EncodeToString_length digest_bytes_length
      dest: subsetD[OF EncodeToString_hex])

lemma infinite_nonempty_keys: "infinite {k :: string. k \<noteq> []}"
proof -
  have "{k :: string. k \<noteq> []} = UNIV - {[]}" by auto
  then show ?thesis using infinite_UNIV_listI[where ?'a = char] by simp
qed

lemma colliding_keys:
  "\<exists>owner apiKey. owner \<noteq> [] \<and> apiKey \<noteq> [] \<and> apiKey \<noteq> owner \<and>
     hashAPIKey sha apiKey = hashAPIKey sha owner"
proof (rule ccontr)
  assume none: "\<not> ?thesis"
  then have "inj_on (hashAPIKey sha) {k. k \<noteq> []}"
    unfolding inj_on_def by (metis mem_Collect_eq)
  moreover have "finite (hashAPIKey sha ` {k. k \<noteq> []})"
    using finite_subset[OF hashAPIKey_range finite_lists_length_eq] by simp
  ultimately have "finite {k :: string. k \<noteq> []}" by (rule finite_imageD[rotated])
  then show False using infinite_nonempty_keys by simp
qed

lemma GetFileForAPIKey_after_SaveFile:
  assumes saved: "fst (SaveFile sha flt tID tCreated tExpires content name mime displayName owner s) =
      Inr metadata"
    and readable: "\<not> flt' (OpReadFile (MetadataDir, FileID metadata @ MetadataFileExtension))"
    and live: "\<not> ExpiresAt metadata < now"
    and same: "hashAPIKey sha apiKey = hashAPIKey sha owner"
  shows "fst (GetFileForAPIKey sha flt' now (FileID metadata) apiKey
        (snd (SaveFile sha flt tID tCreated tExpires content name mime displayName owner s))) =
      Inr metadata"
proof -
  let ?s' = "snd (SaveFile sha flt tID tCreated tExpires content name mime displayName owner s)"
  let ?md = "newFileMetadata sha tCreated tExpires (expirationHours s) (generateFileID sha tID)
            (data content) (word_of_nat (length (data content))) name mime displayName owner"
  have nofail: "SaveFile_failure sha flt tID content s = None"
    using saved unfolding SaveFile_result by (cases "SaveFile_failure sha flt tID content s") simp_all
  then have md: "metadata = ?md" using saved unfolding SaveFile_result by simp
  have id: "FileID metadata = generateFileID sha tID" by (simp add: md)
  have valid: "isValidFileID (FileID metadata)" unfolding id by (rule isValidFileID_generateFileID)
  have "map_of (metadataDir ?s') (FileID metadata @ MetadataFileExtension) = Some (Sidecar metadata)"
    unfolding SaveFile_metadataDir nofail id using md by (simp add: AList.update_conv')
  then have load: "fst (loadMetadata flt' (FileID metadata) ?s') = Inr metadata"
    using loadMetadata_cases[where flt = flt' and fileID = "FileID metadata" and s = ?s', OF valid readable]
    by simp
  have "APIKey metadata = hashAPIKey sha owner" by (simp add: md)
  then have owned: "isOwnedByAPIKey sha metadata apiKey"
    using isOwnedByAPIKey_iff[of metadata sha owner apiKey] same by simp
  show ?thesis
    unfolding GetFileForAPIKey_Inr using load owned live by (simp add: isExpired_def)
qed

lemma owner_save_record:
  "fst (owner_save sha owner) = Inr (newFileMetadata sha 0 0 48 (generateFileID sha 0)
     (string_bytes ''aaa'') 3 ''a.txt'' ''text/plain'' ''a.txt'' owner)"
  unfolding owner_save_def SaveFile_result
  by (simp add: SaveFile_failure_no_faults newTestStore_def string_bytes_def)

section \<open>The local handler\<close>

lemma handleResumableFinalize_panics_iff:
  "(\<exists>msg. handleResumableFinalize sha flt tID tCreated tExpires c fileStore = Panics msg) \<longleftrightarrow>
     0 < length (Query c ''upload_id'') \<and> length (Query c ''upload_id'') < 8"
  by (auto simp: handleResumableFinalize_def Let_def slice_to_def split: prod.splits sum.splits)

lemma long_upload_id_returns:
  "\<exists>metadata fileStore'.
     handleResumableFinalize last_byte_sha no_faults 0 0 0 (finalize_request ''abcdefgh-1'') newTestStore =
       Returns (\<lparr>status_code = 200, upload_status = Some ''final'', response_body = FileJSON metadata\<rparr>,
         fileStore') \<and>
     DisplayName metadata = ''upload-abcdefgh'' \<and> Name metadata = ''abcdefgh-1''"
proof -
  let ?body = "MaxBytesReader MaxMultipartFileSize (request_body (finalize_request ''abcdefgh-1''))"
  have body: "?body = \<lparr>data = string_bytes ''aaa'', read_fails = False\<rparr>"
    by (simp add: MaxBytesReader_def MaxMultipartFileSize_def finalize_request_def string_bytes_def)
  obtain r s' where save: "SaveFile last_byte_sha no_faults 0 0 0 ?body ''abcdefgh-1''
      (ContentType (finalize_request ''abcdefgh-1'')) ''upload-abcdefgh''
      (extractAPIKey (finalize_request ''abcdefgh-1'')) newTestStore = (r, s')"
    by (cases "SaveFile last_byte_sha no_faults 0 0 0 ?body ''abcdefgh-1''
      (ContentType (finalize_request ''abcdefgh-1'')) ''upload-abcdefgh''
      (extractAPIKey (finalize_request ''abcdefgh-1'')) newTestStore")
  have "r = Inr (newFileMetadata last_byte_sha 0 0 (expirationHours newTestStore)
      (generateFileID last_byte_sha 0) (data ?body) (word_of_nat (length (data ?body)))
      ''abcdefgh-1'' (ContentType (finalize_request ''abcdefgh-1'')) ''upload-abcdefgh''
      (extractAPIKey (finalize_request ''abcdefgh-1'')))"
    using SaveFile_result[of last_byte_sha no_faults 0 0 0 ?body "''abcdefgh-1''"
      "ContentType (finalize_request ''abcdefgh-1'')" "''upload-abcdefgh''"
      "extractAPIKey (finalize_request ''abcdefgh-1'')" newTestStore] save
    by (simp add: body SaveFile_failure_no_faults newTestStore_def)
  then show ?thesis
    using save
    by (simp add: handleResumableFinalize_def Query_def GetHeader_def slice_to_def Let_def
        newFileMetadata_def) (simp add: finalize_request_def)
qed

section \<open>The proxy: session table\<close>

lemma TrimLeft_id:
  "find (\<lambda>c. c \<noteq> [] \<and> HasPrefix s c) cs = None \<Longrightarrow> TrimLeft cs s = s"
  by (subst TrimLeft.simps) simp

lemma TrimLeft_fixed: "find (\<lambda>c. c \<noteq> [] \<and> HasPrefix (TrimLeft cs s) c) cs = None"
proof (induction cs s rule: TrimLeft.induct)
  case (1 cs s)
  show ?case
  proof (cases "find (\<lambda>c. c \<noteq> [] \<and> HasPrefix s c) cs")
    case None
    then show ?thesis by (simp add: TrimLeft_id)
  next
    case (Some c)
    then have "TrimLeft cs s = TrimLeft cs (drop (length c) s)"
      by (subst TrimLeft.simps) simp
    then show ?thesis using 1[OF Some] by simp
  qed
qed

lemma TrimLeft_suffix: "\<exists>pre. s = pre @ TrimLeft cs s"
proof (induction cs s rule: TrimLeft.induct)
  case (1 cs s)
  show ?case
  proof (cases "find (\<lambda>c. c \<noteq> [] \<and> HasPrefix s c) cs")
    case None
    then show ?thesis by (simp add: TrimLeft_id)
  next
    case (Some c)
    then have eq: "TrimLeft cs s = TrimLeft cs (drop (length c) s)"
      by (subst TrimLeft.simps) simp
    from 1[OF Some] obtain pre where "drop (length c) s = pre @ TrimLeft cs (drop (length c) s)" ..
    then have "s = (take (length c) s @ pre) @ TrimLeft cs s"
      unfolding eq by (metis append.assoc append_take_drop_id)
    then show ?thesis ..
  qed
qed

lemma HasPrefix_append: "HasPrefix t c \<Longrightarrow> HasPrefix (t @ x) c"
  by (simp add: HasPrefix_def)

lemma TrimSpace_idem [simp]: "TrimSpace (TrimSpace s) = TrimSpace s"
proof -
  let ?a = "TrimLeft White_Space s"
  let ?b = "TrimLeft (map rev White_Space) (rev ?a)"
  let ?t = "rev ?b"
  have t: "TrimSpace s = ?t" by (simp add: TrimSpace_def)
  obtain pre where "rev ?a = pre @ ?b" using TrimLeft_suffix[of "rev ?a" "map rev White_Space"] ..
  then have a: "?a = ?t @ rev pre" by (metis rev_append rev_rev_ident)
  have "find (\<lambda>c. c \<noteq> [] \<and> HasPrefix ?t c) White_Space = None"
  proof (rule ccontr)
    assume "find (\<lambda>c. c \<noteq> [] \<and> HasPrefix ?t c) White_Space \<noteq> None"
    then obtain c where "c \<in> set White_Space" "c \<noteq> []" "HasPrefix ?t c"
      by (auto simp: find_None_iff)
    then have "c \<in> set White_Space" "c \<noteq> []" "HasPrefix ?a c"
      using HasPrefix_append[of ?t c "rev pre"] a by simp_all
    then have "find (\<lambda>c. c \<noteq> [] \<and> HasPrefix ?a c) White_Space \<noteq> None"
      by (auto simp: find_None_iff)
    then show False using TrimLeft_fixed[of White_Space s] by simp
  qed
  then have left: "TrimLeft White_Space ?t = ?t" by (rule TrimLeft_id)
  have right: "TrimLeft (map rev White_Space) ?b = ?b"
    by (rule TrimLeft_id) (rule TrimLeft_fixed)
  show ?thesis unfolding t by (simp add: TrimSpace_def[of ?t] left right)
qed

lemma TrimSpace_Nil [simp]: "TrimSpace [] = []"
  by code_simp

lemma handleResumableFollowUp_invalid:
  assumes "TrimSpace uid = [] \<or> table (TrimSpace uid) = None \<or>
     (\<exists>s. table (TrimSpace uid) = Some s \<and> (authID s = [] \<or> expiresAt s < now))"
  shows "fst (handleResumableFollowUp manager lower now uid cmd table) =
      ErrorEnvelope 400 ''missing or expired upload_id'' ''INVALID_ARGUMENT''"
    and "snd (snd (handleResumableFollowUp manager lower now uid cmd table)) = []"
    and "fst (snd (handleResumableFollowUp manager lower now uid cmd table)) (TrimSpace uid) = None \<or>
      TrimSpace uid = []"
  using assms
  by (auto simp: handleResumableFollowUp_def sessionAuthID_def Let_def split: option.splits)

lemma handleResumableFollowUp_valid:
  assumes "TrimSpace uid \<noteq> []" "table (TrimSpace uid) = Some s" "authID s \<noteq> []"
    "\<not> expiresAt s < now"
  shows "handleResumableFollowUp manager lower now uid cmd table =
     (let call = \<lparr>action = ''files.upload'', force_auth_id = Some (authID s), no_retry = True\<rparr>;
          result = fst (execute manager call)
      in (writeProxyResponse result,
          if Contains (lower cmd) ''finalize'' \<and> \<not> isl result then table(TrimSpace uid := None)
          else table,
          snd (execute manager call)))"
  using assms
  by (simp add: handleResumableFollowUp_def sessionAuthID_def dropSession_def Let_def
      split: prod.splits)

lemma handleResumableStart_binds:
  assumes "Execute m \<lparr>action = ''files.upload'', force_auth_id = None, no_retry = False\<rparr> = Inr resp"
    and "extractUploadID upload_id_of_url
       (case map_of (resp_headers resp) ''X-Goog-Upload-Url'' of None \<Rightarrow> [] | Some v \<Rightarrow> v) = u"
    and "u \<noteq> []" and "authIDFromMetadata resp \<noteq> []"
  shows "fst (snd (handleResumableStart (Some m) upload_id_of_url proxy_url now0 table)) =
      table(u \<mapsto> \<lparr>authID = authIDFromMetadata resp, expiresAt = now0 + sessionTTL\<rparr>)"
    and "TrimSpace u = u"
proof -
  show u: "TrimSpace u = u"
    using assms(2,3) by (auto simp: extractUploadID_def Let_def split: if_splits)
  have "TrimSpace (authIDFromMetadata resp) = authIDFromMetadata resp"
    by (simp add: authIDFromMetadata_def split: option.splits)
  then show "fst (snd (handleResumableStart (Some m) upload_id_of_url proxy_url now0 table)) =
      table(u \<mapsto> \<lparr>authID = authIDFromMetadata resp, expiresAt = now0 + sessionTTL\<rparr>)"
    using assms u by (simp add: handleResumableStart_def execute_def Let_def bindSession_def)
qed


text \<open>
  The follow-up handler by itself. A follow-up whose \<open>upload_id\<close> is blank, unknown, bound to
  no credential or past its expiry is answered with the client error 400
  \<open>missing or expired upload_id\<close> / \<open>INVALID_ARGUMENT\<close> and makes no call of the executor. A
  follow-up with a live session makes exactly one call, which forces the credential stored in
  the session and disables retry, and relays its result; when the command contains
  \<open>finalize\<close> and the call returned no error, the session is removed and every later
  follow-up with that token is answered with the client error. The credential stored is the
  one the executor selected for the start call.
\<close>

lemma handleResumableFollowUp_bound_credential:
  "(TrimSpace uid = [] \<or> table (TrimSpace uid) = None \<or>
      (\<exists>s. table (TrimSpace uid) = Some s \<and> (authID s = [] \<or> expiresAt s < now))
    \<longrightarrow> fst (handleResumableFollowUp manager lower now uid cmd table) =
          ErrorEnvelope 400 ''missing or expired upload_id'' ''INVALID_ARGUMENT'' \<and>
        snd (snd (handleResumableFollowUp manager lower now uid cmd table)) = []) \<and>
   (\<forall>s m. TrimSpace uid \<noteq> [] \<and> table (TrimSpace uid) = Some s \<and> authID s \<noteq> [] \<and>
        \<not> expiresAt s < now \<and> manager = Some m
    \<longrightarrow> snd (snd (handleResumableFollowUp manager lower now uid cmd table)) =
          [\<lparr>action = ''files.upload'', force_auth_id = Some (authID s), no_retry = True\<rparr>] \<and>
        fst (handleResumableFollowUp manager lower now uid cmd table) =
          writeProxyResponse
            (Execute m \<lparr>action = ''files.upload'', force_auth_id = Some (authID s), no_retry = True\<rparr>) \<and>
        (Contains (lower cmd) ''finalize'' \<and>
           \<not> isl (Execute m \<lparr>action = ''files.upload'', force_auth_id = Some (authID s), no_retry = True\<rparr>)
         \<longrightarrow> fst (snd (handleResumableFollowUp manager lower now uid cmd table)) (TrimSpace uid) = None \<and>
             (\<forall>lower' now' cmd'.
                fst (handleResumableFollowUp manager lower' now' uid cmd'
                      (fst (snd (handleResumableFollowUp manager lower now uid cmd table)))) =
                  ErrorEnvelope 400 ''missing or expired upload_id'' ''INVALID_ARGUMENT'' \<and>
                snd (snd (handleResumableFollowUp manager lower' now' uid cmd'
                      (fst (snd (handleResumableFollowUp manager lower now uid cmd table))))) = []))) \<and>
   (\<forall>m resp u upload_id_of_url proxy_url now0 table0.
        manager = Some m \<and>
        Execute m \<lparr>action = ''files.upload'', force_auth_id = None, no_retry = False\<rparr> = Inr resp \<and>
        extractUploadID upload_id_of_url
          (case map_of (resp_headers resp) ''X-Goog-Upload-Url'' of None \<Rightarrow> [] | Some v \<Rightarrow> v) = u \<and>
        u \<noteq> [] \<and> authIDFromMetadata resp \<noteq> [] \<and> \<not> now0 + sessionTTL < now
    \<longrightarrow> snd (snd (handleResumableFollowUp manager lower now u cmd
            (fst (snd (handleResumableStart manager upload_id_of_url proxy_url now0 table0))))) =
          [\<lparr>action = ''files.upload'', force_auth_id = Some (authIDFromMetadata resp),
            no_retry = True\<rparr>])"
proof (intro conjI allI impI)
  assume inv: "TrimSpace uid = [] \<or> table (TrimSpace uid) = None \<or>
      (\<exists>s. table (TrimSpace uid) = Some s \<and> (authID s = [] \<or> expiresAt s < now))"
  show "fst (handleResumableFollowUp manager lower now uid cmd table) =
          ErrorEnvelope 400 ''missing or expired upload_id'' ''INVALID_ARGUMENT''"
    using inv by (rule handleResumableFollowUp_invalid)
  show "snd (snd (handleResumableFollowUp manager lower now uid cmd table)) = []"
    using inv by (rule handleResumableFollowUp_invalid)
next
  fix s m
  assume v: "TrimSpace uid \<noteq> [] \<and> table (TrimSpace uid) = Some s \<and> authID s \<noteq> [] \<and>
        \<not> expiresAt s < now \<and> manager = Some m"
  let ?call = "\<lparr>action = ''files.upload'', force_auth_id = Some (authID s), no_retry = True\<rparr>"
  have eq: "handleResumableFollowUp manager lower now uid cmd table =
     (writeProxyResponse (Execute m ?call),
      if Contains (lower cmd) ''finalize'' \<and> \<not> isl (Execute m ?call) then table(TrimSpace uid := None)
      else table, [?call])"
    using v handleResumableFollowUp_valid[where uid = uid and table = table and s = s
        and now = now and manager = manager and cmd = cmd]
    by (simp add: execute_def Let_def)
  show "snd (snd (handleResumableFollowUp manager lower now uid cmd table)) = [?call]"
    by (simp add: eq)
  show "fst (handleResumableFollowUp manager lower now uid cmd table) = writeProxyResponse (Execute m ?call)"
    by (simp add: eq)
  {
    assume fin: "Contains (lower cmd) ''finalize'' \<and> \<not> isl (Execute m ?call)"
    let ?table' = "fst (snd (handleResumableFollowUp manager lower now uid cmd table))"
    show gone: "?table' (TrimSpace uid) = None" using fin by (simp add: eq)
    then have inv': "TrimSpace uid = [] \<or> ?table' (TrimSpace uid) = None \<or>
      (\<exists>s. ?table' (TrimSpace uid) = Some s \<and> (authID s = [] \<or> expiresAt s < now'))" for now'
      by simp
    fix lower' now' cmd'
    show "fst (handleResumableFollowUp manager lower' now' uid cmd' ?table') =
        ErrorEnvelope 400 ''missing or expired upload_id'' ''INVALID_ARGUMENT''"
      using inv'[of now'] by (rule handleResumableFollowUp_invalid)
    show "snd (snd (handleResumableFollowUp manager lower' now' uid cmd' ?table')) = []"
      using inv'[of now'] by (rule handleResumableFollowUp_invalid)
  }
next
  fix m resp u upload_id_of_url proxy_url now0 table0
  assume h: "manager = Some m \<and>
        Execute m \<lparr>action = ''files.upload'', force_auth_id = None, no_retry = False\<rparr> = Inr resp \<and>
        extractUploadID upload_id_of_url
          (case map_of (resp_headers resp) ''X-Goog-Upload-Url'' of None \<Rightarrow> [] | Some v \<Rightarrow> v) = u \<and>
        u \<noteq> [] \<and> authIDFromMetadata resp \<noteq> [] \<and> \<not> now0 + sessionTTL < now"
  let ?table = "fst (snd (handleResumableStart manager upload_id_of_url proxy_url now0 table0))"
  let ?s = "\<lparr>authID = authIDFromMetadata resp, expiresAt = now0 + sessionTTL\<rparr>"
  have bound: "?table = table0(u \<mapsto> ?s)" and trim: "TrimSpace u = u"
    using h handleResumableStart_binds(1)[where m = m and resp = resp
        and upload_id_of_url = upload_id_of_url and u = u and proxy_url = proxy_url
        and ?now0.0 = now0 and table = table0]
      handleResumableStart_binds(2)[where m = m and resp = resp
        and upload_id_of_url = upload_id_of_url and u = u]
    by simp_all
  have "handleResumableFollowUp manager lower now u cmd ?table =
     (let call = \<lparr>action = ''files.upload'', force_auth_id = Some (authID ?s), no_retry = True\<rparr>;
          result = fst (execute manager call)
      in (writeProxyResponse result,
          if Contains (lower cmd) ''finalize'' \<and> \<not> isl result then ?table(TrimSpace u := None)
          else ?table,
          snd (execute manager call)))"
    using h trim bound by (intro handleResumableFollowUp_valid) simp_all
  then show "snd (snd (handleResumableFollowUp manager lower now u cmd ?table)) =
          [\<lparr>action = ''files.upload'', force_auth_id = Some (authIDFromMetadata resp),
            no_retry = True\<rparr>]"
    using h by (simp add: execute_def Let_def)
qed

text \<open>The dispatch of \<open>UploadFile\<close>, and the two follow-up requests.\<close>

lemma handleMultipartUpload_picked:
  "handleMultipartUpload (Some \<lparr>Execute = run, PickAuth = Inr auth\<rparr>) table =
     (writeProxyResponse (run \<lparr>action = ''files.upload'', force_auth_id = Some auth, no_retry = True\<rparr>),
      table,
      [\<lparr>action = ''files.upload'', force_auth_id = Some auth, no_retry = True\<rparr>])"
  by (simp add: handleMultipartUpload_def pickAuth_def execute_def Let_def)

lemma UploadFile_without_protocol:
  "GetHeader c ''X-Goog-Upload-Protocol'' = [] \<Longrightarrow>
     UploadFile manager lower upload_id_of_url proxy_url now c table = handleMultipartUpload manager table"
  by (simp add: UploadFile_def)

lemma follow_up_request_fields:
  "GetHeader follow_up_request ''X-Goog-Upload-Protocol'' = []"
  "GetHeader follow_up_request ''X-Goog-Upload-Command'' = ''upload, finalize''"
  "Query follow_up_request ''upload_id'' = ''u-123''"
  "GetHeader follow_up_request_with_protocol ''X-Goog-Upload-Protocol'' = ''resumable''"
  "GetHeader follow_up_request_with_protocol ''X-Goog-Upload-Command'' = ''upload, finalize''"
  "Query follow_up_request_with_protocol ''upload_id'' = ''u-123''"
  by (simp_all add: follow_up_request_def follow_up_request_with_protocol_def GetHeader_def Query_def)

lemma TrimSpace_examples:
  "TrimSpace ''upload, finalize'' = ''upload, finalize''"
  "TrimSpace ''u-123'' = ''u-123''"
  "TrimSpace ''c1'' = ''c1''"
  "TrimSpace (CHR 0x09 # '' u-123'' @ [CHR 0xC2, CHR 0xA0, CHR 0xE2, CHR 0x80, CHR 0x83, CHR 0x0A]) = ''u-123''"
  "TrimSpace [CHR ''a'', CHR 0xE2, CHR 0x80, CHR 0x80, CHR 0x80] = [CHR ''a'', CHR 0xE2, CHR 0x80, CHR 0x80, CHR 0x80]"
  by code_simp+

lemma EqualFold_examples:
  "EqualFold ''resumable'' ''resumable''"
  "\<not> EqualFold ''upload, finalize'' ''start''"
  "EqualFold ''ReSuMaBlE'' ''resumable''"
  "EqualFold (''re'' @ [CHR 0xC5, CHR 0xBF] @ ''umable'') ''resumable''"
  "\<not> EqualFold '' resumable'' ''resumable''"
  by code_simp+

lemma started_c1_table:
  "started_c1 = Map.empty(''u-123'' \<mapsto> \<lparr>authID = ''c1'', expiresAt = sessionTTL\<rparr>)"
proof -
  have id: "extractUploadID example_upload_id
       ''https://upstream.example/upload/v1beta/files?upload_id=u-123'' = ''u-123''"
    by code_simp
  have cred: "authIDFromMetadata \<lparr>resp_status = 200,
     resp_headers = [(''X-Goog-Upload-Url'', ''https://upstream.example/upload/v1beta/files?upload_id=u-123'')],
     resp_payload = [], selected_auth_id = Some ''c1''\<rparr> = ''c1''"
    by (simp add: authIDFromMetadata_def TrimSpace_examples)
  show ?thesis
    unfolding started_c1_def
    by (subst handleResumableStart_binds(1)[where u = "''u-123''" and resp = "\<lparr>resp_status = 200,
     resp_headers = [(''X-Goog-Upload-Url'', ''https://upstream.example/upload/v1beta/files?upload_id=u-123'')],
     resp_payload = [], selected_auth_id = Some ''c1''\<rparr>"])
       (simp_all add: upstream_c1_def id cred)
qed

lemma UploadFile_with_protocol:
  "now \<le> sessionTTL \<Longrightarrow>
   snd (snd (UploadFile (Some \<lparr>Execute = run, PickAuth = picked\<rparr>) lower upload_id_of_url proxy_url now
       follow_up_request_with_protocol started_c1)) =
     [\<lparr>action = ''files.upload'', force_auth_id = Some ''c1'', no_retry = True\<rparr>]"
proof -
  let ?m = "Some \<lparr>Execute = run, PickAuth = picked\<rparr>"
  have "UploadFile ?m lower upload_id_of_url proxy_url now follow_up_request_with_protocol started_c1 =
      handleResumableFollowUp ?m lower now ''u-123'' ''upload, finalize'' started_c1"
    by (simp add: UploadFile_def handleResumableUpload_def follow_up_request_fields
        TrimSpace_examples EqualFold_examples)
  moreover assume "now \<le> sessionTTL"
  ultimately show ?thesis
    using handleResumableFollowUp_valid[where uid = "''u-123''" and table = started_c1
        and s = "\<lparr>authID = ''c1'', expiresAt = sessionTTL\<rparr>" and now = now and manager = ?m
        and cmd = "''upload, finalize''" and lower = lower]
    by (simp add: started_c1_table TrimSpace_examples execute_def Let_def)
qed

section \<open>The claims\<close>

text \<open>
  Claim C2. An id that is not exactly 32 hexadecimal characters (its length is not 32, or it
  holds a character outside 0-9, a-f, A-F) is answered with \<open>ErrFileNotFound\<close> by the
  metadata load (and so by \<open>GetFile\<close> and \<open>GetFileForAPIKey\<close>), by \<open>GetFileContent\<close> and by
  the deletes, and the store comes back unchanged: its trace of system calls has no new entry,
  so the id is rejected before the file system is touched.
\<close>

theorem invalid_id_not_found_before_access:
  assumes "length fileID \<noteq> 32 \<or> (\<exists>c\<in>set fileID. c \<notin> set ''0123456789abcdefABCDEF'')"
  shows "loadMetadata flt fileID s = (Inl ErrFileNotFound, s) \<and>
    GetFile flt fileID s = (Inl ErrFileNotFound, s) \<and>
    GetFileForAPIKey sha flt now fileID apiKey s = (Inl ErrFileNotFound, s) \<and>
    GetFileContent flt now fileID s = (Inl ErrFileNotFound, s) \<and>
    deleteFileUnsafe flt fileID s = (Some ErrFileNotFound, s) \<and>
    DeleteFile flt fileID s = (Some ErrFileNotFound, s) \<and>
    DeleteFileForAPIKey sha flt now now' fileID apiKey s = (Some ErrFileNotFound, s)"
proof -
  have invalid: "\<not> isValidFileID fileID"
    using assms unfolding isValidFileID_iff by blast
  have load: "loadMetadata flt fileID s = (Inl ErrFileNotFound, s)"
    using invalid by (rule loadMetadata_invalid)
  have get: "GetFileForAPIKey sha flt now fileID apiKey s = (Inl ErrFileNotFound, s)"
    by (simp add: GetFileForAPIKey_def GetFile_def load)
  have del: "deleteFileUnsafe flt fileID s = (Some ErrFileNotFound, s)"
    using invalid by (rule deleteFileUnsafe_invalid)
  show ?thesis
    using invalid load get del
    by (simp add: GetFile_def GetFileContent_def DeleteFile_def DeleteFileForAPIKey_def)
qed

theorem invalid_id_not_found_before_access_witness:
  "length ''..'' \<noteq> 32 \<and>
   loadMetadata no_faults ''..'' newTestStore = (Inl ErrFileNotFound, newTestStore) \<and>
   GetFileContent no_faults 0 ''..'' newTestStore = (Inl ErrFileNotFound, newTestStore) \<and>
   DeleteFileForAPIKey zero_sha no_faults 0 0 ''..'' ''key-a'' newTestStore =
     (Some ErrFileNotFound, newTestStore) \<and>
   length ''../../../../../../../etc/passwd0'' = 32 \<and>
   (\<exists>c\<in>set ''../../../../../../../etc/passwd0''. c \<notin> set ''0123456789abcdefABCDEF'') \<and>
   loadMetadata no_faults ''../../../../../../../etc/passwd0'' newTestStore =
     (Inl ErrFileNotFound, newTestStore) \<and>
   DeleteFile no_faults ''../../../../../../../etc/passwd0'' newTestStore =
     (Some ErrFileNotFound, newTestStore)"
proof -
  have short: "length ''..'' \<noteq> 32 \<or> (\<exists>c\<in>set ''..''. c \<notin> set ''0123456789abcdefABCDEF'')"
    by simp
  have dots: "\<exists>c\<in>set ''../../../../../../../etc/passwd0''. c \<notin> set ''0123456789abcdefABCDEF''"
    by (rule bexI [of _ "CHR ''.''"]) simp_all
  then have long: "length ''../../../../../../../etc/passwd0'' \<noteq> 32 \<or>
      (\<exists>c\<in>set ''../../../../../../../etc/passwd0''. c \<notin> set ''0123456789abcdefABCDEF'')"
    by (rule disjI2)
  show ?thesis
    using dots
      invalid_id_not_found_before_access [OF short, of no_faults newTestStore zero_sha 0 "''key-a''" 0]
      invalid_id_not_found_before_access [OF long, of no_faults newTestStore zero_sha 0 "''key-a''" 0]
    by simp
qed

text \<open>
  Claim C1, as the code has it: the owner test compares the owner hashes of the keys, not the
  keys. Let no input/output error hit the read of the sidecar of \<open>fileID\<close>. When the
  sidecar holds a record whose owner hash is the hash of a key \<open>owner\<close> and the presented
  key hashes to something else (the empty hash, stored for the empty key, is equal to the hash
  of the empty key only), \<open>GetFileForAPIKey\<close> and \<open>DeleteFileForAPIKey\<close> return
  \<open>ErrFileNotFound\<close>; they return the same value when no sidecar exists and when the record
  has expired; and the failed delete leaves files, sidecars and counter as they were.
\<close>

theorem owner_scoped_access_not_found:
  assumes readable: "\<not> flt (OpReadFile (MetadataDir, fileID @ MetadataFileExtension))"
    and situation:
      "map_of (metadataDir s) (fileID @ MetadataFileExtension) = None \<or>
       (\<exists>metadata. map_of (metadataDir s) (fileID @ MetadataFileExtension) = Some (Sidecar metadata) \<and>
          (isExpired metadata now \<or>
           (\<exists>owner. APIKey metadata = hashAPIKey sha owner \<and>
              hashAPIKey sha apiKey \<noteq> hashAPIKey sha owner)))"
  shows "fst (GetFileForAPIKey sha flt now fileID apiKey s) = Inl ErrFileNotFound \<and>
    fst (DeleteFileForAPIKey sha flt now now' fileID apiKey s) = Some ErrFileNotFound \<and>
    same_disk s (snd (DeleteFileForAPIKey sha flt now now' fileID apiKey s))"
proof -
  have get: "fst (GetFileForAPIKey sha flt now fileID apiKey s) = Inl ErrFileNotFound"
  proof (cases "isValidFileID fileID")
    case False
    then show ?thesis
      by (simp add: GetFileForAPIKey_def GetFile_def loadMetadata_invalid)
  next
    case True
    have load: "fst (loadMetadata flt fileID s) =
     (case map_of (metadataDir s) (fileID @ MetadataFileExtension) of
        None \<Rightarrow> Inl ErrFileNotFound
      | Some SubDir \<Rightarrow> Inl (Errorf ''failed to read metadata'')
      | Some Garbage \<Rightarrow> Inl (Errorf ''failed to unmarshal metadata'')
      | Some (Sidecar metadata) \<Rightarrow> Inr metadata)"
      using True readable by (rule loadMetadata_cases)
    from situation show ?thesis
    proof (elim disjE exE conjE)
      assume "map_of (metadataDir s) (fileID @ MetadataFileExtension) = None"
      then show ?thesis using load by (simp add: GetFileForAPIKey_NotFound)
    next
      fix metadata
      assume side: "map_of (metadataDir s) (fileID @ MetadataFileExtension) = Some (Sidecar metadata)"
        and "isExpired metadata now"
      then show ?thesis using load by (simp add: GetFileForAPIKey_NotFound)
    next
      fix metadata owner
      assume side: "map_of (metadataDir s) (fileID @ MetadataFileExtension) = Some (Sidecar metadata)"
        and own: "APIKey metadata = hashAPIKey sha owner"
        and differ: "hashAPIKey sha apiKey \<noteq> hashAPIKey sha owner"
      have "\<not> isOwnedByAPIKey sha metadata apiKey"
        using isOwnedByAPIKey_iff[OF own] differ by simp
      then show ?thesis using load side by (simp add: GetFileForAPIKey_NotFound)
    qed
  qed
  then show ?thesis using DeleteFileForAPIKey_NotFound by blast
qed

theorem owner_scoped_access_not_found_witness:
  "hashAPIKey last_byte_sha ''key-b'' \<noteq> hashAPIKey last_byte_sha ''key-a'' \<and>
   (\<exists>metadata. fst saved_a = Inr metadata \<and> APIKey metadata = hashAPIKey last_byte_sha ''key-a'' \<and>
      \<not> isExpired metadata 1 \<and>
      map_of (metadataDir (snd saved_a)) (FileID metadata @ MetadataFileExtension) = Some (Sidecar metadata)) \<and>
   fst (GetFileForAPIKey last_byte_sha no_faults 1 (generateFileID last_byte_sha 0) ''key-b'' (snd saved_a))
     = Inl ErrFileNotFound \<and>
   fst (DeleteFileForAPIKey last_byte_sha no_faults 1 2 (generateFileID last_byte_sha 0) ''key-b'' (snd saved_a))
     = Some ErrFileNotFound \<and>
   same_disk (snd saved_a)
     (snd (DeleteFileForAPIKey last_byte_sha no_faults 1 2 (generateFileID last_byte_sha 0) ''key-b'' (snd saved_a))) \<and>
   fst (GetFileForAPIKey last_byte_sha no_faults 1 (generateFileID last_byte_sha 0) ''key-b'' newTestStore)
     = Inl ErrFileNotFound"
proof -
  let ?id = "generateFileID last_byte_sha 0"
  let ?md = "newFileMetadata last_byte_sha 0 0 48 ?id
     (string_bytes ''aaa'') (word_of_nat (length (string_bytes ''aaa''))) ''a.txt'' ''text/plain'' ''a.txt'' ''key-a''"
  have differ: "hashAPIKey last_byte_sha ''key-b'' \<noteq> hashAPIKey last_byte_sha ''key-a''"
    by (simp add: hash_key_a hash_key_b)
  have side: "map_of (metadataDir (snd saved_a)) (?id @ MetadataFileExtension) = Some (Sidecar ?md)"
    by (simp add: saved_a_metadataDir)
  have live: "\<not> isExpired ?md 1" by (simp add: isExpired_def)
  have readable: "\<not> no_faults (OpReadFile (MetadataDir, ?id @ MetadataFileExtension))"
    by (simp add: no_faults_def)
  have wrong: "map_of (metadataDir (snd saved_a)) (?id @ MetadataFileExtension) = None \<or>
       (\<exists>metadata. map_of (metadataDir (snd saved_a)) (?id @ MetadataFileExtension) = Some (Sidecar metadata) \<and>
          (isExpired metadata 1 \<or>
           (\<exists>owner. APIKey metadata = hashAPIKey last_byte_sha owner \<and>
              hashAPIKey last_byte_sha ''key-b'' \<noteq> hashAPIKey last_byte_sha owner)))"
    using side differ by auto
  have missing: "map_of (metadataDir newTestStore) (?id @ MetadataFileExtension) = None \<or>
       (\<exists>metadata. map_of (metadataDir newTestStore) (?id @ MetadataFileExtension) = Some (Sidecar metadata) \<and>
          (isExpired metadata 1 \<or>
           (\<exists>owner. APIKey metadata = hashAPIKey last_byte_sha owner \<and>
              hashAPIKey last_byte_sha ''key-b'' \<noteq> hashAPIKey last_byte_sha owner)))"
    by (simp add: newTestStore_def)
  show ?thesis
    using differ side live saved_a_result
      owner_scoped_access_not_found [where flt = no_faults and sha = last_byte_sha and now = 1
        and now' = 2 and apiKey = "''key-b''" and fileID = ?id and s = "snd saved_a",
        OF readable wrong]
      owner_scoped_access_not_found [where flt = no_faults and sha = last_byte_sha and now = 1
        and now' = 2 and apiKey = "''key-b''" and fileID = ?id and s = newTestStore,
        OF readable missing]
    by simp
qed

text \<open>
  The claim as stated fails: a key other than the owner's is answered \<open>ErrFileNotFound\<close> only
  when its owner hash differs. \<open>hashAPIKey\<close> keeps the first eight bytes of the digest, so for
  every digest function there are two different non-empty keys with one hash, and the file the
  first has saved is returned to the second. With the digest function \<open>zero_sha\<close> the keys
  \<open>key-a\<close> and \<open>key-b\<close> are such a pair.
\<close>

theorem colliding_key_gets_foreign_record:
  "(\<forall>sha. \<exists>owner apiKey metadata.
     owner \<noteq> [] \<and> apiKey \<noteq> [] \<and> apiKey \<noteq> owner \<and>
     fst (owner_save sha owner) = Inr metadata \<and>
     APIKey metadata = hashAPIKey sha owner \<and>
     fst (GetFileForAPIKey sha no_faults 1 (FileID metadata) apiKey (snd (owner_save sha owner))) =
       Inr metadata) \<and>
   (\<exists>metadata. fst (owner_save zero_sha ''key-a'') = Inr metadata \<and>
      FileID metadata = generateFileID zero_sha 0 \<and>
      APIKey metadata = hashAPIKey zero_sha ''key-a'') \<and>
   fst (GetFileForAPIKey zero_sha no_faults 1 (generateFileID zero_sha 0) ''key-b''
         (snd (owner_save zero_sha ''key-a''))) =
     fst (owner_save zero_sha ''key-a'')"
proof (intro conjI allI)
  fix sha
  obtain owner apiKey where keys: "owner \<noteq> []" "apiKey \<noteq> []" "apiKey \<noteq> owner"
    "hashAPIKey sha apiKey = hashAPIKey sha owner"
    using colliding_keys[of sha] by blast
  let ?md = "newFileMetadata sha 0 0 48 (generateFileID sha 0)
     (string_bytes ''aaa'') 3 ''a.txt'' ''text/plain'' ''a.txt'' owner"
  have saved: "fst (owner_save sha owner) = Inr ?md" by (rule owner_save_record)
  have live: "\<not> ExpiresAt ?md < 1" by (simp add: newFileMetadata_def)
  have readable: "\<not> no_faults (OpReadFile (MetadataDir, FileID ?md @ MetadataFileExtension))"
    by (simp add: no_faults_def)
  have "fst (GetFileForAPIKey sha no_faults 1 (FileID ?md) apiKey (snd (owner_save sha owner))) = Inr ?md"
    unfolding owner_save_def
    by (rule GetFileForAPIKey_after_SaveFile[where flt' = no_faults and now = 1])
       (use saved readable live keys(4) in \<open>simp_all add: owner_save_def\<close>)
  moreover have "APIKey ?md = hashAPIKey sha owner" by (simp add: newFileMetadata_def)
  ultimately show "\<exists>owner apiKey metadata.
     owner \<noteq> [] \<and> apiKey \<noteq> [] \<and> apiKey \<noteq> owner \<and>
     fst (owner_save sha owner) = Inr metadata \<and>
     APIKey metadata = hashAPIKey sha owner \<and>
     fst (GetFileForAPIKey sha no_faults 1 (FileID metadata) apiKey (snd (owner_save sha owner))) =
       Inr metadata"
    using keys saved by blast
next
  show "\<exists>metadata. fst (owner_save zero_sha ''key-a'') = Inr metadata \<and>
      FileID metadata = generateFileID zero_sha 0 \<and>
      APIKey metadata = hashAPIKey zero_sha ''key-a''"
    by (simp add: owner_save_record newFileMetadata_def)
next
  let ?md = "newFileMetadata zero_sha 0 0 48 (generateFileID zero_sha 0)
     (string_bytes ''aaa'') 3 ''a.txt'' ''text/plain'' ''a.txt'' ''key-a''"
  have saved: "fst (owner_save zero_sha ''key-a'') = Inr ?md" by (rule owner_save_record)
  have live: "\<not> ExpiresAt ?md < 1" by (simp add: newFileMetadata_def)
  have readable: "\<not> no_faults (OpReadFile (MetadataDir, FileID ?md @ MetadataFileExtension))"
    by (simp add: no_faults_def)
  have same: "hashAPIKey zero_sha ''key-b'' = hashAPIKey zero_sha ''key-a''"
    by (simp add: hashAPIKey_def zero_sha_def)
  have id: "FileID ?md = generateFileID zero_sha 0" by (simp add: newFileMetadata_def)
  have "fst (GetFileForAPIKey zero_sha no_faults 1 (FileID ?md) ''key-b''
      (snd (owner_save zero_sha ''key-a''))) = Inr ?md"
    unfolding owner_save_def
    by (rule GetFileForAPIKey_after_SaveFile[where flt' = no_faults and now = 1])
       (use saved readable live same in \<open>simp_all add: owner_save_def\<close>)
  then show "fst (GetFileForAPIKey zero_sha no_faults 1 (generateFileID zero_sha 0) ''key-b''
         (snd (owner_save zero_sha ''key-a''))) =
     fst (owner_save zero_sha ''key-a'')"
    unfolding saved id by simp
qed

text \<open>
  Claim C3, as the code has it. A record whose \<open>ExpiresAt\<close> lies before the clock reading
  of the call is left out of the result of \<open>ListFiles\<close>, and the owner-scoped
  \<open>GetFileForAPIKey\<close> answers \<open>ErrFileNotFound\<close> for it; both leave the files and sidecars
  on disk. The plain \<open>GetFile\<close> does not look at the expiry and returns the record.
\<close>

theorem expired_record_hidden:
  assumes "fst (loadMetadata flt fileID s) = Inr metadata"
    and "ExpiresAt metadata < now"
  shows "fst (GetFileForAPIKey sha flt now fileID apiKey s) = Inl ErrFileNotFound \<and>
    same_disk s (snd (GetFileForAPIKey sha flt now fileID apiKey s)) \<and>
    (case fst (ListFiles flt now s) of Inl err \<Rightarrow> True | Inr files \<Rightarrow> metadata \<notin> set files) \<and>
    same_disk s (snd (ListFiles flt now s)) \<and>
    fst (GetFile flt fileID s) = Inr metadata"
proof -
  have expired: "isExpired metadata now" using assms(2) by (simp add: isExpired_def)
  have "fst (GetFileForAPIKey sha flt now fileID apiKey s) = Inl ErrFileNotFound"
    unfolding GetFileForAPIKey_NotFound using assms(1) expired by blast
  moreover have "case fst (ListFiles flt now s) of Inl err \<Rightarrow> True | Inr files \<Rightarrow> metadata \<notin> set files"
    using ListFiles_not_expired[of flt now s] expired by (auto split: sum.splits)
  ultimately show ?thesis
    using assms(1) GetFileForAPIKey_same_disk ListFiles_same_disk by (simp add: GetFile_def)
qed

theorem expired_record_hidden_witness:
  "fst (loadMetadata no_faults (generateFileID last_byte_sha 0) expired_a) =
     Inr (record_a\<lparr>ExpiresAt := - 60000000000\<rparr>) \<and>
   ExpiresAt (record_a\<lparr>ExpiresAt := - 60000000000\<rparr>) < 0 \<and>
   fst (GetFileForAPIKey last_byte_sha no_faults 0 (generateFileID last_byte_sha 0) ''key-a'' expired_a)
     = Inl ErrFileNotFound \<and>
   (case fst (ListFiles no_faults 0 expired_a) of Inl err \<Rightarrow> True
    | Inr files \<Rightarrow> record_a\<lparr>ExpiresAt := - 60000000000\<rparr> \<notin> set files) \<and>
   map_of (filesDir expired_a) (generateFileID last_byte_sha 0) = Some (string_bytes ''aaa'')"
proof -
  have exp: "ExpiresAt (record_a\<lparr>ExpiresAt := - 60000000000\<rparr>) < 0" by simp
  have disk: "map_of (filesDir expired_a) (generateFileID last_byte_sha 0) = Some (string_bytes ''aaa'')"
    by (simp add: expired_a_def saved_a_filesDir)
  show ?thesis
    using exp disk loadMetadata_expired_a
      expired_record_hidden [OF loadMetadata_expired_a exp, of last_byte_sha "''key-a''"]
    by simp
qed

text \<open>
  The claim as stated fails for the plain \<open>GetFile\<close>: on the store whose only record
  expired a minute ago it returns that record.
\<close>

theorem plain_GetFile_returns_expired_record:
  "ExpiresAt (record_a\<lparr>ExpiresAt := - 60000000000\<rparr>) < 0 \<and>
   map_of (metadataDir expired_a) (generateFileID last_byte_sha 0 @ MetadataFileExtension) =
     Some (Sidecar (record_a\<lparr>ExpiresAt := - 60000000000\<rparr>)) \<and>
   fst (GetFile no_faults (generateFileID last_byte_sha 0) expired_a) =
     Inr (record_a\<lparr>ExpiresAt := - 60000000000\<rparr>) \<and>
   fst (GetFile no_faults (generateFileID last_byte_sha 0) expired_a) \<noteq> Inl ErrFileNotFound"
  using loadMetadata_expired_a by (simp add: GetFile_def expired_a_def)




text \<open>
  Claim C8. When \<open>SaveFile\<close> has returned a record, \<open>GetFileForAPIKey\<close> with the same key
  and the returned id, on the store \<open>SaveFile\<close> left, at a clock reading not after the
  record's expiry and with the sidecar readable, returns that record; its \<open>SizeBytes\<close> is the
  length of the saved bytes and its \<open>SHA256Hash\<close> the hex encoding of their digest.
\<close>

theorem SaveFile_then_GetFileForAPIKey:
  assumes saved: "fst (SaveFile sha flt tID tCreated tExpires content name mime displayName apiKey s) =
      Inr metadata"
    and readable: "\<not> flt' (OpReadFile (MetadataDir, FileID metadata @ MetadataFileExtension))"
    and live: "\<not> ExpiresAt metadata < now"
  shows "fst (GetFileForAPIKey sha flt' now (FileID metadata) apiKey
        (snd (SaveFile sha flt tID tCreated tExpires content name mime displayName apiKey s))) =
      Inr metadata \<and>
    SizeBytes metadata = word_of_nat (length (data content)) \<and>
    (length (data content) < 2 ^ 63 \<longrightarrow> sint (SizeBytes metadata) = int (length (data content))) \<and>
    SHA256Hash metadata = EncodeToString (digest_bytes (sha (data content)))"
proof -
  let ?s' = "snd (SaveFile sha flt tID tCreated tExpires content name mime displayName apiKey s)"
  let ?md = "newFileMetadata sha tCreated tExpires (expirationHours s) (generateFileID sha tID)
            (data content) (word_of_nat (length (data content))) name mime displayName apiKey"
  have nofail: "SaveFile_failure sha flt tID content s = None"
    using saved unfolding SaveFile_result by (cases "SaveFile_failure sha flt tID content s") simp_all
  then have md: "metadata = ?md" using saved unfolding SaveFile_result by simp
  have id: "FileID metadata = generateFileID sha tID" by (simp add: md)
  have valid: "isValidFileID (FileID metadata)" unfolding id by (rule isValidFileID_generateFileID)
  have "map_of (metadataDir ?s') (FileID metadata @ MetadataFileExtension) = Some (Sidecar metadata)"
    unfolding SaveFile_metadataDir nofail id using md by (simp add: AList.update_conv')
  then have load: "fst (loadMetadata flt' (FileID metadata) ?s') = Inr metadata"
    using loadMetadata_cases[where flt = flt' and fileID = "FileID metadata" and s = ?s', OF valid readable]
    by simp
  have owned: "isOwnedByAPIKey sha metadata apiKey"
    using isOwnedByAPIKey_iff[of metadata sha apiKey apiKey] by (simp add: md)
  have get: "fst (GetFileForAPIKey sha flt' now (FileID metadata) apiKey ?s') = Inr metadata"
    unfolding GetFileForAPIKey_Inr using load owned live by (simp add: isExpired_def)
  show ?thesis
    using get by (simp add: md sint_word_of_nat_64)
qed

theorem SaveFile_then_GetFileForAPIKey_witness:
  "fst saved_a = Inr record_a \<and>
   \<not> ExpiresAt record_a < 1 \<and>
   fst (GetFileForAPIKey last_byte_sha no_faults 1 (FileID record_a) ''key-a'' (snd saved_a)) =
     Inr record_a \<and>
   SizeBytes record_a = 3 \<and> sint (SizeBytes record_a) = 3 \<and>
   SHA256Hash record_a = EncodeToString (digest_bytes (last_byte_sha (string_bytes ''aaa'')))"
proof -
  have saved: "fst (SaveFile last_byte_sha no_faults 0 0 0
     \<lparr>data = string_bytes ''aaa'', read_fails = False\<rparr> ''a.txt'' ''text/plain'' ''a.txt'' ''key-a''
     newTestStore) = Inr record_a"
    using saved_a_record by (simp add: saved_a_def)
  have readable: "\<not> no_faults (OpReadFile (MetadataDir, FileID record_a @ MetadataFileExtension))"
    by (simp add: no_faults_def)
  have live: "\<not> ExpiresAt record_a < 1" by (simp add: record_a_def)
  show ?thesis
    using saved_a_record live
      SaveFile_then_GetFileForAPIKey [where flt' = no_faults and now = 1, OF saved readable live]
    by (simp add: saved_a_def string_bytes_def)
qed




text \<open>
  Claim C9 fails on the code. An id is 32 lower-case hexadecimal characters (lemmas
  \<open>GenerateFileID_length\<close> and \<open>GenerateFileID_hex\<close>), but it is a function of the clock
  reading alone. For every digest function and every clock value \<open>t\<close>: two uploads whose
  \<open>generateFileID\<close> reads \<open>t\<close> both succeed and return the same id; the second replaces
  the content and the sidecar of the first, and the counter counts both while the disk holds
  one.
\<close>

theorem same_clock_reading_same_file_id:
  "\<forall>sha t.
     (\<exists>first second.
        fst (first_save sha t) = Inr first \<and> fst (second_save sha t) = Inr second \<and>
        FileID first = generateFileID sha t \<and> FileID second = FileID first \<and>
        APIKey first = hashAPIKey sha ''key-a'' \<and> APIKey second = hashAPIKey sha ''key-b'' \<and>
        map_of (metadataDir (snd (second_save sha t))) (FileID first @ MetadataFileExtension) =
          Some (Sidecar second)) \<and>
     filesDir (snd (first_save sha t)) = [(generateFileID sha t, string_bytes ''aaa'')] \<and>
     filesDir (snd (second_save sha t)) = [(generateFileID sha t, string_bytes ''bbb'')] \<and>
     currentTotalSize (snd (second_save sha t)) = 6 \<and>
     disk_usage (snd (second_save sha t)) = 3"
proof (intro allI)
  fix sha t
  let ?a = "newFileMetadata sha t t 48 (generateFileID sha t)
     (string_bytes ''aaa'') (word_of_nat (length (string_bytes ''aaa''))) ''a.txt'' ''text/plain'' ''a.txt'' ''key-a''"
  let ?b = "newFileMetadata sha t t 48 (generateFileID sha t)
     (string_bytes ''bbb'') (word_of_nat (length (string_bytes ''bbb''))) ''b.txt'' ''text/plain'' ''b.txt'' ''key-b''"
  have first: "fst (first_save sha t) = Inr ?a"
    unfolding first_save_def SaveFile_result
    by (simp add: SaveFile_failure_no_faults newTestStore_def)
  have nofail: "SaveFile_failure sha no_faults t \<lparr>data = string_bytes ''bbb'', read_fails = False\<rparr>
      (snd (first_save sha t)) = None"
    by (simp add: SaveFile_failure_no_faults first_save_store)
  have second: "fst (second_save sha t) = Inr ?b"
    unfolding second_save_def SaveFile_result nofail by (simp add: first_save_store)
  have side: "map_of (metadataDir (snd (second_save sha t))) (generateFileID sha t @ MetadataFileExtension) =
      Some (Sidecar ?b)"
    unfolding second_save_def SaveFile_metadataDir nofail
    by (simp add: first_save_store AList.update_conv')
  have files: "filesDir (snd (second_save sha t)) = [(generateFileID sha t, string_bytes ''bbb'')]"
    unfolding second_save_def SaveFile_unfold SaveFile_body_unfold Let_def
    by (simp add: sel_simps no_faults_def first_save_store AList.update_conv')
  have counter: "currentTotalSize (snd (second_save sha t)) = 6"
    unfolding second_save_def SaveFile_currentTotalSize nofail
    by (simp add: first_save_store string_bytes_def)
  have usage: "disk_usage (snd (second_save sha t)) = 3"
    unfolding disk_usage_def files by (simp add: string_bytes_def)
  show "(\<exists>first second.
        fst (first_save sha t) = Inr first \<and> fst (second_save sha t) = Inr second \<and>
        FileID first = generateFileID sha t \<and> FileID second = FileID first \<and>
        APIKey first = hashAPIKey sha ''key-a'' \<and> APIKey second = hashAPIKey sha ''key-b'' \<and>
        map_of (metadataDir (snd (second_save sha t))) (FileID first @ MetadataFileExtension) =
          Some (Sidecar second)) \<and>
     filesDir (snd (first_save sha t)) = [(generateFileID sha t, string_bytes ''aaa'')] \<and>
     filesDir (snd (second_save sha t)) = [(generateFileID sha t, string_bytes ''bbb'')] \<and>
     currentTotalSize (snd (second_save sha t)) = 6 \<and>
     disk_usage (snd (second_save sha t)) = 3"
    using first second side files counter usage first_save_store(1) by simp
qed

text \<open>
  Claim C10 fails on the code. \<open>handleResumableFinalize\<close> builds the display name from
  \<open>uploadID[:8]\<close> after testing only that \<open>uploadID\<close> is not empty: with \<open>upload_id=abc\<close>
  the slice expression panics, for every store, clock and environment, before \<open>SaveFile\<close> is
  called and before any response is written. Lemma \<open>handleResumableFinalize_panics_iff\<close>: the
  handler panics exactly for the ids of 1 to 7 bytes.
\<close>

theorem short_upload_id_panics:
  "\<forall>sha flt tID tCreated tExpires fileStore.
     Query (finalize_request ''abc'') ''upload_id'' = ''abc'' \<and>
     handleResumableFinalize sha flt tID tCreated tExpires (finalize_request ''abc'') fileStore =
       Panics ''runtime error: slice bounds out of range''"
  by (simp add: handleResumableFinalize_def Query_def finalize_request_def slice_to_def Let_def)

text \<open>
  Claim C7 fails on the code. The proxy's \<open>UploadFile\<close> sends a request to the resumable
  handlers only when it carries the header \<open>X-Goog-Upload-Protocol: resumable\<close>. A follow-up
  that carries the upload id in its query and the command \<open>upload, finalize\<close>, but not that
  header, is a resumable upload for \<open>shouldTreatAsResumableUpload\<close>, and \<open>UploadFile\<close> hands
  it to \<open>handleMultipartUpload\<close>: the session table is not consulted, and the upload is
  executed with the credential the manager picks anew. With the session of \<open>u-123\<close> bound
  to \<open>c1\<close> and a manager that picks \<open>c2\<close>, the follow-up is executed with \<open>c2\<close> and the session
  stays in the table; with no session at all it is executed as well, where the claim has
  the client error. The same request with the protocol header is executed with \<open>c1\<close>.
\<close>

theorem follow_up_without_protocol_header_picks_credential:
  "\<forall>run lower upload_id_of_url proxy_url now.
     shouldTreatAsResumableUpload follow_up_request \<and>
     started_c1 ''u-123'' = Some \<lparr>authID = ''c1'', expiresAt = sessionTTL\<rparr> \<and>
     UploadFile (Some \<lparr>Execute = run, PickAuth = Inr ''c2''\<rparr>) lower upload_id_of_url proxy_url now
         follow_up_request started_c1 =
       (writeProxyResponse
          (run \<lparr>action = ''files.upload'', force_auth_id = Some ''c2'', no_retry = True\<rparr>),
        started_c1,
        [\<lparr>action = ''files.upload'', force_auth_id = Some ''c2'', no_retry = True\<rparr>]) \<and>
     UploadFile (Some \<lparr>Execute = run, PickAuth = Inr ''c2''\<rparr>) lower upload_id_of_url proxy_url now
         follow_up_request Map.empty =
       (writeProxyResponse
          (run \<lparr>action = ''files.upload'', force_auth_id = Some ''c2'', no_retry = True\<rparr>),
        Map.empty,
        [\<lparr>action = ''files.upload'', force_auth_id = Some ''c2'', no_retry = True\<rparr>]) \<and>
     snd (snd (UploadFile (Some \<lparr>Execute = run, PickAuth = Inr ''c2''\<rparr>) lower upload_id_of_url proxy_url
         0 follow_up_request_with_protocol started_c1)) =
       [\<lparr>action = ''files.upload'', force_auth_id = Some ''c1'', no_retry = True\<rparr>]"
proof (intro allI conjI)
  show "shouldTreatAsResumableUpload follow_up_request"
    by (simp add: shouldTreatAsResumableUpload_def follow_up_request_fields TrimSpace_examples)
  show "started_c1 ''u-123'' = Some \<lparr>authID = ''c1'', expiresAt = sessionTTL\<rparr>"
    by (simp add: started_c1_table)
next
  fix run lower upload_id_of_url proxy_url now
  show "UploadFile (Some \<lparr>Execute = run, PickAuth = Inr ''c2''\<rparr>) lower upload_id_of_url proxy_url now
         follow_up_request started_c1 =
       (writeProxyResponse
          (run \<lparr>action = ''files.upload'', force_auth_id = Some ''c2'', no_retry = True\<rparr>),
        started_c1,
        [\<lparr>action = ''files.upload'', force_auth_id = Some ''c2'', no_retry = True\<rparr>])"
    by (simp add: UploadFile_without_protocol follow_up_request_fields handleMultipartUpload_picked)
  show "UploadFile (Some \<lparr>Execute = run, PickAuth = Inr ''c2''\<rparr>) lower upload_id_of_url proxy_url now
         follow_up_request Map.empty =
       (writeProxyResponse
          (run \<lparr>action = ''files.upload'', force_auth_id = Some ''c2'', no_retry = True\<rparr>),
        Map.empty,
        [\<lparr>action = ''files.upload'', force_auth_id = Some ''c2'', no_retry = True\<rparr>])"
    by (simp add: UploadFile_without_protocol follow_up_request_fields handleMultipartUpload_picked)
  show "snd (snd (UploadFile (Some \<lparr>Execute = run, PickAuth = Inr ''c2''\<rparr>) lower upload_id_of_url proxy_url
         0 follow_up_request_with_protocol started_c1)) =
       [\<lparr>action = ''files.upload'', force_auth_id = Some ''c1'', no_retry = True\<rparr>]"
    by (rule UploadFile_with_protocol) (simp add: sessionTTL_def)
qed

end
